theory Spec2Isabelle
  imports Complex_Main "HOL-Library.Sublist"
begin

section \<open>Data model\<close>

text \<open>
  The movie records of the source. \<open>MovieData\<close> (the legacy rating page) has the six
  fields below and an index signature for any further property; \<open>Movie\<close> (both movie
  explorers) has three more fields. A genre is either a plain label or an object with an
  identifier (a number or a string) and a name.
\<close>

datatype genre_id = NumId int | StrId string

datatype genre = GenreLabel string | GenreObj genre_id string

record MovieData =
  movie_id :: int
  original_title :: string
  overview :: string
  poster_path :: "string option"
  genres :: "genre list"
  release_date :: string

record Movie = MovieData +
  title :: string
  vote_average :: real
  runtime :: "nat option"

text \<open>The three rating buttons: \<open>handleRating('yes' | 'no' | 'maybe')\<close>.\<close>

datatype rating = Yes | No | Maybe

section \<open>The batch-fetch movie explorer (components/MovieExplorer.tsx)\<close>

text \<open>
  The component is single-threaded: every handler runs to its next \<open>await\<close> without
  interruption, and what follows the \<open>await\<close> runs when the request resolves. Each
  source function is therefore two functions here: the part up to the \<open>await\<close>, under
  the source's name, and the part after it, named \<open>_resume\<close>. A request in flight is
  an entry of \<open>pending\<close> that remembers which function awaits it and what was sent; a
  rating write in flight is an entry of \<open>writes\<close>. \<open>console\<close> collects the
  \<open>console.error\<close> diagnostics.
\<close>

datatype caller = InitFetch | ReplenishFetch | AdvanceFetch

record request =
  caller :: caller
  results :: nat
  ignore :: "int list"

record explorer =
  currentMovie :: "Movie option"
  movieQueue :: "Movie list"
  loadingMovie :: bool
  seenMovieIds :: "int list"
  error :: "string option"
  expanded :: bool
  isInitialMount :: bool
  isReplenishing :: bool
  pending :: "request list"
  writes :: "(int \<times> nat) list"
  console :: "string list"

text \<open>
  A callback reads the state through the variables of the render that built it:
  \<open>currentMovie\<close>, \<open>movieQueue\<close>, \<open>loadingMovie\<close> and \<open>seenMovieIds\<close> are the
  values that render was given, whatever has been set since. Only the two refs
  (\<open>isInitialMount\<close>, \<open>isReplenishing\<close>) are read as they are now, and the
  functional updates (\<open>prev => ...\<close>) act on the state as it is now. A \<open>render\<close>
  holds the four captured values; \<open>rendered s\<close> is the render that shows the state
  \<open>s\<close>. Every function below that reads state takes the render of its callback as
  an argument next to the state it acts on.
\<close>

record render =
  currentMovie_r :: "Movie option"
  movieQueue_r :: "Movie list"
  loadingMovie_r :: bool
  seenMovieIds_r :: "int list"

definition rendered :: "explorer \<Rightarrow> render" where
  "rendered s = \<lparr> currentMovie_r = currentMovie s, movieQueue_r = movieQueue s,
     loadingMovie_r = loadingMovie s, seenMovieIds_r = seenMovieIds s \<rparr>"

definition FETCH_SIZE :: nat where
  "FETCH_SIZE = 10"

definition MIN_QUEUE_SIZE :: nat where
  "MIN_QUEUE_SIZE = 5"

text \<open>The state of the hooks at mount: \<open>useState\<close> and \<open>useRef\<close> initial values.\<close>

definition initial :: explorer where
  "initial = \<lparr> currentMovie = None, movieQueue = [], loadingMovie = False,
     seenMovieIds = [], error = None, expanded = False, isInitialMount = True,
     isReplenishing = False, pending = [], writes = [], console = [] \<rparr>"

text \<open>
  What \<open>api.get\<close> can deliver to \<open>fetchMovies\<close>: a rejection, a value that is no
  array, or an array of movies.
\<close>

datatype api_result = ApiError | ApiInvalid | ApiMovies "Movie list"

text \<open>
  \<open>fetchMovies\<close> up to its \<open>await\<close>: the request \<open>/movies?results=count&ignore=...\<close>
  carries the \<open>seenMovieIds\<close> of the render that built the callback (the parameter is
  left out when that list is empty).
\<close>

definition fetchMovies_request :: "caller \<Rightarrow> nat \<Rightarrow> render \<Rightarrow> request" where
  "fetchMovies_request c count r =
     \<lparr> caller = c, results = count, ignore = seenMovieIds_r r \<rparr>"

text \<open>A genre given as a string becomes an object with that string as id and name.\<close>

fun normalizeGenre :: "genre \<Rightarrow> genre" where
  "normalizeGenre (GenreLabel g) = GenreObj (StrId g) g"
| "normalizeGenre (GenreObj i n) = GenreObj i n"

definition normalizeMovie :: "Movie \<Rightarrow> Movie" where
  "normalizeMovie m = m\<lparr> genres := map normalizeGenre (genres m) \<rparr>"

text \<open>
  \<open>fetchMovies\<close> after its \<open>await\<close>: the movies it returns to its caller, and the
  state with the new identifiers appended to \<open>seenMovieIds\<close> by a functional update.
  Every failure is logged and gives the empty list, so the \<open>catch\<close> branches of its
  callers are never taken and have no counterpart here.
\<close>

fun fetchMovies_resume :: "api_result \<Rightarrow> explorer \<Rightarrow> Movie list \<times> explorer" where
  "fetchMovies_resume ApiError s =
     ([], s\<lparr> console := console s @ [''Failed to fetch movies:''] \<rparr>)"
| "fetchMovies_resume ApiInvalid s =
     ([], s\<lparr> console := console s @ [''Invalid response format:''] \<rparr>)"
| "fetchMovies_resume (ApiMovies movies) s =
     (map normalizeMovie movies,
      if length movies > 0
      then s\<lparr> seenMovieIds := seenMovieIds s @ map movie_id movies \<rparr>
      else s)"

text \<open>
  \<open>replenishQueue\<close> up to its \<open>await\<close>: the guard is the \<open>isReplenishing\<close> ref, read
  as it is now; the test for a nearly empty queue reads the captured length. The local
  \<open>isMounted\<close> is never cleared before it is read.
\<close>

definition replenishQueue :: "render \<Rightarrow> explorer \<Rightarrow> explorer" where
  "replenishQueue r s =
     (if isReplenishing s then s
      else
        let s1 = s\<lparr> isReplenishing := True \<rparr>;
            s2 = (if length (movieQueue_r r) < 2 then s1\<lparr> loadingMovie := True \<rparr> else s1)
        in s2\<lparr> pending := pending s2 @ [fetchMovies_request ReplenishFetch FETCH_SIZE r] \<rparr>)"

text \<open>
  \<open>replenishQueue\<close> after its \<open>await\<close>: the batch is appended with a functional
  update, then the \<open>finally\<close> block clears the loading state and the guard.
\<close>

definition replenishQueue_resume :: "api_result \<Rightarrow> explorer \<Rightarrow> explorer" where
  "replenishQueue_resume a s =
     (let (movies, s1) = fetchMovies_resume a s;
          s2 = (if length movies > 0 then s1\<lparr> movieQueue := movieQueue s1 @ movies \<rparr> else s1)
      in s2\<lparr> loadingMovie := False, isReplenishing := False \<rparr>)"

text \<open>\<open>initialize\<close>, the body of the mount effect, up to its \<open>await\<close>.\<close>

definition initialize :: "render \<Rightarrow> explorer \<Rightarrow> explorer" where
  "initialize r s =
     (if \<not> isInitialMount s then s
      else
        let s1 = s\<lparr> loadingMovie := True, error := None \<rparr>
        in s1\<lparr> pending := pending s1 @ [fetchMovies_request InitFetch FETCH_SIZE r] \<rparr>)"

text \<open>
  \<open>initialize\<close> after its \<open>await\<close>: the first movie becomes current, the rest
  replaces the queue when there is a rest; no movie at all sets the error.
\<close>

definition initialize_resume :: "api_result \<Rightarrow> explorer \<Rightarrow> explorer" where
  "initialize_resume a s =
     (let (movies, s1) = fetchMovies_resume a s;
          s2 = (case movies of
                  [] \<Rightarrow> s1\<lparr> error := Some ''Failed to fetch movies'' \<rparr>
                | m # rest \<Rightarrow>
                    let s' = s1\<lparr> currentMovie := Some m \<rparr>
                    in if length movies > 1 then s'\<lparr> movieQueue := rest \<rparr> else s')
      in s2\<lparr> loadingMovie := False, isInitialMount := False \<rparr>)"

text \<open>
  The effect that monitors the queue: it calls \<open>replenishQueue\<close> when, in its render,
  nothing is loading, the queue is below \<open>MIN_QUEUE_SIZE\<close> and a movie is current.
\<close>

definition queueEffect :: "render \<Rightarrow> explorer \<Rightarrow> explorer" where
  "queueEffect r s =
     (if \<not> loadingMovie_r r \<and> length (movieQueue_r r) < MIN_QUEUE_SIZE
         \<and> length (movieQueue_r r) \<ge> 0 \<and> currentMovie_r r \<noteq> None
      then replenishQueue r s else s)"

text \<open>
  \<open>moveToNextMovie\<close>: with a queue in its render, the head of that queue becomes
  current and the queue as it is now loses its first movie (\<open>prevQueue.slice(1)\<close>);
  with an empty queue in its render a single movie is fetched, unless the guard is set.
\<close>

definition moveToNextMovie :: "render \<Rightarrow> explorer \<Rightarrow> explorer" where
  "moveToNextMovie r s =
     (case movieQueue_r r of
        nextMovie # rest \<Rightarrow>
          s\<lparr> currentMovie := Some nextMovie, movieQueue := drop 1 (movieQueue s),
             expanded := False \<rparr>
      | [] \<Rightarrow>
          if \<not> isReplenishing s
          then
            let s1 = s\<lparr> isReplenishing := True, loadingMovie := True \<rparr>
            in s1\<lparr> pending := pending s1 @ [fetchMovies_request AdvanceFetch 1 r] \<rparr>
          else s)"

text \<open>The \<open>then\<close> callback of that single fetch.\<close>

definition moveToNextMovie_resume :: "api_result \<Rightarrow> explorer \<Rightarrow> explorer" where
  "moveToNextMovie_resume a s =
     (let (movies, s1) = fetchMovies_resume a s;
          s2 = (case movies of
                  [] \<Rightarrow> s1\<lparr> error := Some ''Failed to fetch movie'' \<rparr>
                | m # rest \<Rightarrow> s1\<lparr> currentMovie := Some m \<rparr>)
      in s2\<lparr> loadingMovie := False, isReplenishing := False \<rparr>)"

text \<open>The numeric value sent for a rating.\<close>

fun numericRating :: "rating \<Rightarrow> nat" where
  "numericRating Yes = 5"
| "numericRating Maybe = 3"
| "numericRating No = 1"

text \<open>
  \<open>handleRating\<close> up to its \<open>await\<close>: nothing without a current movie in its render;
  otherwise the next movie is shown first and the write is sent after that.
\<close>

definition handleRating :: "rating \<Rightarrow> render \<Rightarrow> explorer \<Rightarrow> explorer" where
  "handleRating v r s =
     (case currentMovie_r r of
        None \<Rightarrow> s
      | Some cm \<Rightarrow>
          let movieId = movie_id cm;
              s1 = moveToNextMovie r s
          in s1\<lparr> writes := writes s1 @ [(movieId, numericRating v)] \<rparr>)"

text \<open>\<open>handleRating\<close> after its \<open>await\<close>: a failed write is logged, nothing else.\<close>

definition handleRating_resume :: "bool \<Rightarrow> explorer \<Rightarrow> explorer" where
  "handleRating_resume ok s =
     (if ok then s else s\<lparr> console := console s @ [''Failed to save rating:''] \<rparr>)"

text \<open>
  The operations as events. A callback runs either as the one of the latest render,
  which shows the state as it is (\<open>Latest\<close>), or as the one built by a given render
  (\<open>From r\<close>): an effect runs after its render is committed, and answers that arrive
  in between change the state but not what the effect reads. \<open>Replenish\<close> is the queue
  effect, \<open>Advance\<close> the skip button, \<open>FetchDone i a\<close> the arrival of the answer \<open>a\<close>
  to the \<open>i\<close>-th request in flight, \<open>WriteDone i ok\<close> the outcome of the \<open>i\<close>-th
  rating write in flight. A sequence of events may name any render at all, so what holds
  of every sequence holds however the renders and effects are scheduled.
\<close>

datatype 'r callback = Latest | From 'r

fun render_of :: "render callback \<Rightarrow> explorer \<Rightarrow> render" where
  "render_of Latest s = rendered s"
| "render_of (From r) s = r"

datatype event =
    Initialize "render callback"
  | Replenish "render callback"
  | Advance "render callback"
  | Rate rating "render callback"
  | FetchDone nat api_result
  | WriteDone nat bool

definition remove_nth :: "nat \<Rightarrow> 'a list \<Rightarrow> 'a list" where
  "remove_nth i xs = take i xs @ drop (Suc i) xs"

definition fetchDone :: "nat \<Rightarrow> api_result \<Rightarrow> explorer \<Rightarrow> explorer" where
  "fetchDone i a s =
     (if i < length (pending s)
      then
        let s1 = s\<lparr> pending := remove_nth i (pending s) \<rparr>
        in (case caller (pending s ! i) of
              InitFetch \<Rightarrow> initialize_resume a s1
            | ReplenishFetch \<Rightarrow> replenishQueue_resume a s1
            | AdvanceFetch \<Rightarrow> moveToNextMovie_resume a s1)
      else s)"

definition writeDone :: "nat \<Rightarrow> bool \<Rightarrow> explorer \<Rightarrow> explorer" where
  "writeDone i ok s =
     (if i < length (writes s)
      then handleRating_resume ok (s\<lparr> writes := remove_nth i (writes s) \<rparr>)
      else s)"

fun step :: "explorer \<Rightarrow> event \<Rightarrow> explorer" where
  "step s (Initialize c) = initialize (render_of c s) s"
| "step s (Replenish c) = queueEffect (render_of c s) s"
| "step s (Advance c) = moveToNextMovie (render_of c s) s"
| "step s (Rate v c) = handleRating v (render_of c s) s"
| "step s (FetchDone i a) = fetchDone i a s"
| "step s (WriteDone i ok) = writeDone i ok s"

definition run :: "event list \<Rightarrow> explorer \<Rightarrow> explorer" where
  "run es s = foldl step s es"

text \<open>The number of movies the answers in a sequence of events hold.\<close>

fun returned :: "event list \<Rightarrow> nat" where
  "returned [] = 0"
| "returned (FetchDone i (ApiMovies movies) # es) = length movies + returned es"
| "returned (e # es) = returned es"

section \<open>The legacy single-fetch movie explorer\<close>

text \<open>
  The older explorer fetches one movie per request and asks for several at once with
  \<open>Promise.all\<close>. An entry of \<open>pending_single\<close> is one such joint wait: who awaits
  it and how many requests it joins. It has no list of seen identifiers, no refs and no
  guard. Names shared with the batch-fetch explorer carry the suffix \<open>_single\<close>. Its
  callbacks read \<open>currentMovie\<close>, \<open>movieQueue\<close> and \<open>loadingMovie\<close> through their
  render, as above.
\<close>

record batch =
  awaited_by :: caller
  fetches :: nat

record explorer_single =
  currentMovie_single :: "Movie option"
  movieQueue_single :: "Movie list"
  loadingMovie_single :: bool
  error_single :: "string option"
  expanded_single :: bool
  pending_single :: "batch list"
  writes_single :: "(int \<times> nat) list"
  console_single :: "string list"

record render_single =
  currentMovie_rs :: "Movie option"
  movieQueue_rs :: "Movie list"
  loadingMovie_rs :: bool

definition rendered_single :: "explorer_single \<Rightarrow> render_single" where
  "rendered_single s = \<lparr> currentMovie_rs = currentMovie_single s,
     movieQueue_rs = movieQueue_single s, loadingMovie_rs = loadingMovie_single s \<rparr>"

definition QUEUE_SIZE :: nat where
  "QUEUE_SIZE = 3"

definition initial_single :: explorer_single where
  "initial_single = \<lparr> currentMovie_single = None, movieQueue_single = [],
     loadingMovie_single = False, error_single = None, expanded_single = False,
     pending_single = [], writes_single = [], console_single = [] \<rparr>"

text \<open>
  \<open>fetchMovie\<close> after its \<open>await\<close>: the answer \<open>None\<close> stands for a rejected
  \<open>api.get\<close>, which is logged and becomes \<open>null\<close>; \<open>fetchMovie_all\<close> is the
  \<open>Promise.all\<close> of several of them followed by the filter for non-null movies.
\<close>

fun fetchMovie :: "Movie option \<Rightarrow> explorer_single \<Rightarrow> Movie option \<times> explorer_single" where
  "fetchMovie None s =
     (None, s\<lparr> console_single := console_single s @ [''Failed to fetch movie:''] \<rparr>)"
| "fetchMovie (Some m) s = (Some m, s)"

fun fetchMovie_all :: "Movie option list \<Rightarrow> explorer_single \<Rightarrow> Movie list \<times> explorer_single" where
  "fetchMovie_all [] s = ([], s)"
| "fetchMovie_all (a # as) s =
     (let (movie, s1) = fetchMovie a s;
          (validMovies, s2) = fetchMovie_all as s1
      in (case movie of None \<Rightarrow> validMovies | Some m \<Rightarrow> m # validMovies, s2))"

text \<open>
  \<open>replenishQueue\<close>: the length it tests and subtracts from is the captured one; the
  answers are appended with a functional update.
\<close>

definition replenishQueue_single :: "render_single \<Rightarrow> explorer_single \<Rightarrow> explorer_single" where
  "replenishQueue_single r s =
     (if length (movieQueue_rs r) < QUEUE_SIZE
      then
        let moviesNeeded = QUEUE_SIZE - length (movieQueue_rs r)
        in s\<lparr> pending_single := pending_single s @
                 [\<lparr> awaited_by = ReplenishFetch, fetches = moviesNeeded \<rparr>] \<rparr>
      else s)"

definition replenishQueue_single_resume :: "Movie option list \<Rightarrow> explorer_single \<Rightarrow> explorer_single" where
  "replenishQueue_single_resume answers s =
     (let (validMovies, s1) = fetchMovie_all answers s
      in if length validMovies > 0
         then s1\<lparr> movieQueue_single := movieQueue_single s1 @ validMovies \<rparr>
         else s1)"

definition initialize_single :: "explorer_single \<Rightarrow> explorer_single" where
  "initialize_single s =
     (let s1 = s\<lparr> loadingMovie_single := True, error_single := None \<rparr>
      in s1\<lparr> pending_single := pending_single s1 @
               [\<lparr> awaited_by = InitFetch, fetches = QUEUE_SIZE + 1 \<rparr>] \<rparr>)"

definition initialize_single_resume :: "Movie option list \<Rightarrow> explorer_single \<Rightarrow> explorer_single" where
  "initialize_single_resume answers s =
     (let (validMovies, s1) = fetchMovie_all answers s;
          s2 = (case validMovies of
                  [] \<Rightarrow> s1\<lparr> error_single := Some ''Failed to fetch movies'' \<rparr>
                | m # rest \<Rightarrow>
                    let s' = s1\<lparr> currentMovie_single := Some m \<rparr>
                    in if length validMovies > 1 then s'\<lparr> movieQueue_single := rest \<rparr> else s')
      in s2\<lparr> loadingMovie_single := False \<rparr>)"

definition queueEffect_single :: "render_single \<Rightarrow> explorer_single \<Rightarrow> explorer_single" where
  "queueEffect_single r s =
     (if \<not> loadingMovie_rs r \<and> length (movieQueue_rs r) < QUEUE_SIZE
      then replenishQueue_single r s else s)"

definition moveToNextMovie_single :: "render_single \<Rightarrow> explorer_single \<Rightarrow> explorer_single" where
  "moveToNextMovie_single r s =
     (case movieQueue_rs r of
        nextMovie # rest \<Rightarrow>
          s\<lparr> currentMovie_single := Some nextMovie,
             movieQueue_single := drop 1 (movieQueue_single s),
             expanded_single := False \<rparr>
      | [] \<Rightarrow>
          let s1 = s\<lparr> loadingMovie_single := True \<rparr>
          in s1\<lparr> pending_single := pending_single s1 @
                   [\<lparr> awaited_by = AdvanceFetch, fetches = 1 \<rparr>] \<rparr>)"

definition moveToNextMovie_single_resume :: "Movie option \<Rightarrow> explorer_single \<Rightarrow> explorer_single" where
  "moveToNextMovie_single_resume answer s =
     (let (movie, s1) = fetchMovie answer s
      in (case movie of
            Some m \<Rightarrow> s1\<lparr> currentMovie_single := Some m, loadingMovie_single := False \<rparr>
          | None \<Rightarrow> s1\<lparr> error_single := Some ''Failed to fetch movie'',
                         loadingMovie_single := False \<rparr>))"

definition handleRating_single :: "rating \<Rightarrow> render_single \<Rightarrow> explorer_single \<Rightarrow> explorer_single" where
  "handleRating_single v r s =
     (case currentMovie_rs r of
        None \<Rightarrow> s
      | Some cm \<Rightarrow>
          let movieId = movie_id cm;
              s1 = moveToNextMovie_single r s
          in s1\<lparr> writes_single := writes_single s1 @ [(movieId, numericRating v)] \<rparr>)"

definition handleRating_single_resume :: "bool \<Rightarrow> explorer_single \<Rightarrow> explorer_single" where
  "handleRating_single_resume ok s =
     (if ok then s
      else s\<lparr> console_single := console_single s @ [''Failed to save rating:''] \<rparr>)"

text \<open>
  Its events. \<open>FetchDone_single i answers\<close> resolves the \<open>i\<close>-th joint wait with one
  answer per request it joins. At mount both effects run from the first render:
  \<open>initialize\<close>, then the queue effect, which still reads \<open>loadingMovie = false\<close> and
  an empty queue and so fetches too.
\<close>

fun render_of_single :: "render_single callback \<Rightarrow> explorer_single \<Rightarrow> render_single" where
  "render_of_single Latest s = rendered_single s"
| "render_of_single (From r) s = r"

datatype event_single =
    Initialize_single
  | Replenish_single "render_single callback"
  | Advance_single "render_single callback"
  | Rate_single rating "render_single callback"
  | FetchDone_single nat "Movie option list"
  | WriteDone_single nat bool

definition fetchDone_single :: "nat \<Rightarrow> Movie option list \<Rightarrow> explorer_single \<Rightarrow> explorer_single" where
  "fetchDone_single i answers s =
     (if i < length (pending_single s) \<and> length answers = fetches (pending_single s ! i)
      then
        let s1 = s\<lparr> pending_single := remove_nth i (pending_single s) \<rparr>
        in (case awaited_by (pending_single s ! i) of
              InitFetch \<Rightarrow> initialize_single_resume answers s1
            | ReplenishFetch \<Rightarrow> replenishQueue_single_resume answers s1
            | AdvanceFetch \<Rightarrow>
                (case answers of
                   [answer] \<Rightarrow> moveToNextMovie_single_resume answer s1
                 | _ \<Rightarrow> s))
      else s)"

definition writeDone_single :: "nat \<Rightarrow> bool \<Rightarrow> explorer_single \<Rightarrow> explorer_single" where
  "writeDone_single i ok s =
     (if i < length (writes_single s)
      then handleRating_single_resume ok (s\<lparr> writes_single := remove_nth i (writes_single s) \<rparr>)
      else s)"

fun step_single :: "explorer_single \<Rightarrow> event_single \<Rightarrow> explorer_single" where
  "step_single s Initialize_single = initialize_single s"
| "step_single s (Replenish_single c) = queueEffect_single (render_of_single c s) s"
| "step_single s (Advance_single c) = moveToNextMovie_single (render_of_single c s) s"
| "step_single s (Rate_single v c) = handleRating_single v (render_of_single c s) s"
| "step_single s (FetchDone_single i answers) = fetchDone_single i answers s"
| "step_single s (WriteDone_single i ok) = writeDone_single i ok s"

definition run_single :: "event_single list \<Rightarrow> explorer_single \<Rightarrow> explorer_single" where
  "run_single es s = foldl step_single s es"

definition mount_single :: "event_single list" where
  "mount_single = [Initialize_single, Replenish_single (From (rendered_single initial_single))]"

fun returned_single :: "event_single list \<Rightarrow> nat" where
  "returned_single [] = 0"
| "returned_single (FetchDone_single i answers # es) =
     length (filter (\<lambda>a. a \<noteq> None) answers) + returned_single es"
| "returned_single (e # es) = returned_single es"

section \<open>The legacy rating page (pages/MovieRatingPage.tsx)\<close>

text \<open>
  The page keeps the current movie in \<open>movieData\<close> and one preloaded movie in
  \<open>nextMovieData\<close>. \<open>attempts\<close> counts the requests sent to the movie source,
  \<open>sleeps\<close> lists the delays waited between them in milliseconds, \<open>started\<close> lists
  the asynchronous calls a handler has started and not awaited, and \<open>console_page\<close>
  collects the \<open>console.error\<close> diagnostics (debug output of \<open>console.log\<close> is left
  out).
\<close>

record user =
  user_id :: int

record payload =
  payload_user_id :: int
  payload_movie_id :: int
  payload_rating :: nat

datatype started =
    PreloadNextMovie
  | FetchNextMovie "MovieData option"
  | PostRating payload

record page =
  movieData :: "MovieData option"
  nextMovieData :: "MovieData option"
  loading :: bool
  error_page :: "string option"
  submitting :: bool
  snackbar_open :: bool
  snackbar_message :: string
  user :: "user option"
  started :: "started list"
  attempts :: nat
  sleeps :: "nat list"
  console_page :: "string list"

definition initial_page :: "user option \<Rightarrow> page" where
  "initial_page u = \<lparr> movieData = None, nextMovieData = None, loading = True,
     error_page = None, submitting = False, snackbar_open = False, snackbar_message = [],
     user = u, started = [], attempts = 0, sleeps = [], console_page = [] \<rparr>"

definition emptyMovie :: MovieData where
  "emptyMovie = \<lparr> movie_id = 0, original_title = [], overview = [], poster_path = None,
     genres = [], release_date = [] \<rparr>"

fun selectionToRating :: "rating \<Rightarrow> nat" where
  "selectionToRating No = 1"
| "selectionToRating Maybe = 2"
| "selectionToRating Yes = 3"

text \<open>
  The JSON body of an answer of the movie source, every property optional, and what a
  request can come to: a rejection with a message, a status that is not ok, or a body.
\<close>

record apiBody =
  success :: "bool option"
  status_code :: "int option"
  body_id :: "int option"
  body_original_title :: "string option"
  body_overview :: "string option"
  body_poster_path :: "string option"
  body_genres :: "genre list option"
  body_release_date :: "string option"

datatype response = Rejected string | NotOk nat | Json apiBody

definition processMovieData :: "apiBody \<Rightarrow> MovieData" where
  "processMovieData data =
     \<lparr> movie_id = (case body_id data of None \<Rightarrow> 0 | Some i \<Rightarrow> i),
       original_title = (case body_original_title data of None \<Rightarrow> [] | Some t \<Rightarrow> t),
       overview = (case body_overview data of None \<Rightarrow> [] | Some t \<Rightarrow> t),
       poster_path = body_poster_path data,
       genres = (case body_genres data of None \<Rightarrow> [] | Some gs \<Rightarrow> gs),
       release_date = (case body_release_date data of None \<Rightarrow> [] | Some t \<Rightarrow> t) \<rparr>"

text \<open>The decimal digits of a status, as the template string renders it.\<close>

function show_nat :: "nat \<Rightarrow> string" where
  "show_nat n =
     (if n < 10 then [char_of (48 + n)]
      else show_nat (n div 10) @ [char_of (48 + n mod 10)])"
  by pat_completeness auto
termination
  by (relation "measure (\<lambda>n. n)") auto

declare show_nat.simps [simp del]

text \<open>The message of the \<open>Error\<close> a request throws, if it throws.\<close>

fun thrown :: "response \<Rightarrow> string option" where
  "thrown (Rejected msg) = Some msg"
| "thrown (NotOk status) = Some (''API request failed with status '' @ show_nat status)"
| "thrown (Json data) = None"

definition maxRetries :: nat where
  "maxRetries = 3"

text \<open>
  The \<open>while\<close> loop of \<open>fetchMovieFromAPI\<close>. The upstream gives the answer to the
  request number \<open>attempts\<close>. The result is \<open>Inl\<close> the message of a rethrown error,
  or \<open>Inr\<close> the processed movie, \<open>Inr None\<close> for \<open>null\<close>.
\<close>

function fetchMovieFromAPI_loop ::
  "(nat \<Rightarrow> response) \<Rightarrow> nat \<Rightarrow> page \<Rightarrow> (string + MovieData option) \<times> page" where
  "fetchMovieFromAPI_loop upstream currentRetry s =
     (if currentRetry < maxRetries
      then
        let s1 = s\<lparr> attempts := attempts s + 1 \<rparr>
        in (case upstream (attempts s) of
              Json data \<Rightarrow>
                if success data = Some False \<or> status_code data = Some 34
                then
                  if currentRetry + 1 \<ge> maxRetries then (Inr None, s1)
                  else
                    let delay = 1000 * (currentRetry + 1)
                    in fetchMovieFromAPI_loop upstream (currentRetry + 1)
                         (s1\<lparr> sleeps := sleeps s1 @ [delay] \<rparr>)
                else (Inr (Some (processMovieData data)), s1)
            | failed \<Rightarrow>
                let s2 = s1\<lparr> console_page := console_page s1 @ [''Error fetching movie:''] \<rparr>
                in if currentRetry \<ge> maxRetries - 1 then (Inl (the (thrown failed)), s2)
                   else fetchMovieFromAPI_loop upstream (currentRetry + 1)
                          (s2\<lparr> sleeps := sleeps s2 @ [1000 * (currentRetry + 1)] \<rparr>))
      else (Inr None, s))"
  by pat_completeness auto
termination
  by (relation "measure (\<lambda>(upstream, currentRetry, s). maxRetries - currentRetry)") auto

declare fetchMovieFromAPI_loop.simps [simp del]

definition fetchMovieFromAPI ::
  "(nat \<Rightarrow> response) \<Rightarrow> page \<Rightarrow> (string + MovieData option) \<times> page" where
  "fetchMovieFromAPI upstream s = fetchMovieFromAPI_loop upstream 0 s"

text \<open>
  \<open>fetchNextMovie\<close>, the foreground fetch, from call to completion. \<open>captured\<close> is
  the \<open>movieData\<close> of the render the call was made from.
\<close>

definition keep_or_empty :: "MovieData option \<Rightarrow> page \<Rightarrow> page" where
  "keep_or_empty captured s =
     (if captured = None then s\<lparr> movieData := Some emptyMovie \<rparr> else s)"

definition fetchNextMovie_catch :: "string \<Rightarrow> MovieData option \<Rightarrow> page \<Rightarrow> page" where
  "fetchNextMovie_catch msg captured s =
     (let s1 = s\<lparr> console_page := console_page s @ [''Error fetching next movie:''] \<rparr>
      in if \<not> sublist ''status_code: 34'' msg
         then s1\<lparr> error_page := Some ''Failed to load next movie. Please try again later.'',
                  snackbar_open := True,
                  snackbar_message := ''Failed to load next movie. Please try again later.'' \<rparr>
         else keep_or_empty captured s1)"

definition fetchNextMovie_from ::
  "(nat \<Rightarrow> response) \<Rightarrow> MovieData option \<Rightarrow> page \<Rightarrow> page" where
  "fetchNextMovie_from upstream captured s =
     (let s0 = s\<lparr> loading := True \<rparr>;
          s' = (case fetchMovieFromAPI upstream s0 of
                  (Inl msg, s1) \<Rightarrow> fetchNextMovie_catch msg captured s1
                | (Inr (Some data), s1) \<Rightarrow> s1\<lparr> movieData := Some data, error_page := None \<rparr>
                | (Inr None, s1) \<Rightarrow>
                    (case fetchMovieFromAPI upstream (s1\<lparr> sleeps := sleeps s1 @ [1000] \<rparr>) of
                       (Inl msg, s2) \<Rightarrow> fetchNextMovie_catch msg captured s2
                     | (Inr (Some retryData), s2) \<Rightarrow>
                         s2\<lparr> movieData := Some retryData, error_page := None \<rparr>
                     | (Inr None, s2) \<Rightarrow>
                         keep_or_empty captured
                           (s2\<lparr> console_page := console_page s2 @
                                 [''Failed to fetch movie data after silent retry''] \<rparr>)))
      in s'\<lparr> loading := False \<rparr>)"

definition fetchNextMovie :: "(nat \<Rightarrow> response) \<Rightarrow> page \<Rightarrow> page" where
  "fetchNextMovie upstream s = fetchNextMovie_from upstream (movieData s) s"

text \<open>\<open>preloadNextMovie\<close>, the background fetch, from call to completion.\<close>

definition preloadNextMovie :: "(nat \<Rightarrow> response) \<Rightarrow> page \<Rightarrow> page" where
  "preloadNextMovie upstream s =
     (case fetchMovieFromAPI upstream s of
        (Inl msg, s1) \<Rightarrow>
          s1\<lparr> console_page := console_page s1 @ [''Error preloading next movie:''] \<rparr>
      | (Inr (Some data), s1) \<Rightarrow> s1\<lparr> nextMovieData := Some data \<rparr>
      | (Inr None, s1) \<Rightarrow>
          (case fetchMovieFromAPI upstream (s1\<lparr> sleeps := sleeps s1 @ [1000] \<rparr>) of
             (Inl msg, s2) \<Rightarrow>
               s2\<lparr> console_page := console_page s2 @ [''Error preloading next movie:''] \<rparr>
           | (Inr (Some retryData), s2) \<Rightarrow> s2\<lparr> nextMovieData := Some retryData \<rparr>
           | (Inr None, s2) \<Rightarrow> s2))"

text \<open>
  \<open>submitRating\<close> up to its return: the two refusals, then the switch to the preloaded
  movie (or the start of a foreground fetch), then the write.
\<close>

definition submitRating :: "rating \<Rightarrow> page \<Rightarrow> page" where
  "submitRating selectionValue s =
     (case movieData s of
        None \<Rightarrow> s\<lparr> snackbar_open := True,
                   snackbar_message := ''Cannot submit rating: Movie ID not available'' \<rparr>
      | Some movieToRate \<Rightarrow>
          if movie_id movieToRate = 0
          then s\<lparr> snackbar_open := True,
                  snackbar_message := ''Cannot submit rating: Movie ID not available'' \<rparr>
          else
            (case user s of
               None \<Rightarrow> s\<lparr> snackbar_open := True,
                          snackbar_message := ''Please log in to rate movies'' \<rparr>
             | Some u \<Rightarrow>
                 let s1 = (case nextMovieData s of
                             Some next \<Rightarrow>
                               s\<lparr> movieData := Some next, nextMovieData := None,
                                  started := started s @ [PreloadNextMovie] \<rparr>
                           | None \<Rightarrow>
                               s\<lparr> loading := True,
                                  started := started s @ [FetchNextMovie (movieData s)] \<rparr>);
                     s2 = s1\<lparr> submitting := True \<rparr>
                 in s2\<lparr> started := started s2 @
                          [PostRating \<lparr> payload_user_id = user_id u,
                                        payload_movie_id = movie_id movieToRate,
                                        payload_rating = selectionToRating selectionValue \<rparr>] \<rparr>))"

text \<open>
  The promise chain of the write: a rejected or not-ok request is logged and opens the
  error snackbar; either way \<open>submitting\<close> is cleared.
\<close>

definition submitRating_resume :: "bool \<Rightarrow> page \<Rightarrow> page" where
  "submitRating_resume ok s =
     (let s1 = (if ok then s
                else s\<lparr> console_page := console_page s @ [''Error submitting rating:''],
                        snackbar_open := True,
                        snackbar_message :=
                          ''Failed to submit rating, but we moved to the next movie.'' \<rparr>)
      in s1\<lparr> submitting := False \<rparr>)"

section \<open>Sample data\<close>

text \<open>
  Movies and movie sources for the concrete scenarios: \<open>film n\<close> is a movie with
  identifier \<open>n\<close> and one genre given as a plain label, \<open>shown n\<close> the same movie as
  the explorer stores it; \<open>serving\<close> answers the request number \<open>n\<close> with a movie of
  identifier \<open>n + 1\<close>; \<open>always34\<close> answers every request with the transient status
  code 34.
\<close>

definition film :: "int \<Rightarrow> Movie" where
  "film n = \<lparr> movie_id = n, original_title = ''Film'', overview = ''A film'',
     poster_path = None, genres = [GenreLabel ''Drama''], release_date = ''2020-01-01'',
     title = ''Film'', vote_average = 7, runtime = Some 90 \<rparr>"

definition shown :: "int \<Rightarrow> Movie" where
  "shown n = normalizeMovie (film n)"

definition serving :: "nat \<Rightarrow> response" where
  "serving n = Json \<lparr> success = None, status_code = None, body_id = Some (int n + 1),
     body_original_title = Some ''Film'', body_overview = None, body_poster_path = None,
     body_genres = None, body_release_date = None \<rparr>"

definition always34 :: "nat \<Rightarrow> response" where
  "always34 n = Json \<lparr> success = Some False, status_code = Some 34, body_id = None,
     body_original_title = None, body_overview = None, body_poster_path = None,
     body_genres = None, body_release_date = None \<rparr>"

text \<open>
  States and sessions built from them. \<open>listed n\<close> is what the rating page makes of
  the answer of \<open>serving\<close> with identifier \<open>n\<close>; \<open>browsing u\<close> is the rating page
  of user \<open>u\<close> once the first movie and the preloaded one have arrived. \<open>watching\<close>
  and \<open>lonely\<close> are the explorer after an initial batch of three movies and of one
  movie; \<open>busy_session\<close> is a full initial batch, five ratings, and a full
  replenishment. In \<open>skipped_at_mount\<close> the skip button was pressed while the initial
  fetch was in flight and the initial batch has then arrived; \<open>late_session\<close> goes on
  with the answer to the skip and only then runs the queue effect of the render that
  showed \<open>skipped_at_mount\<close>.
\<close>

definition listed :: "int \<Rightarrow> MovieData" where
  "listed n = \<lparr> movie_id = n, original_title = ''Film'', overview = [], poster_path = None,
     genres = [], release_date = [] \<rparr>"

definition browsing :: "user option \<Rightarrow> page" where
  "browsing u = preloadNextMovie serving (fetchNextMovie serving (initial_page u))"

definition watching :: explorer where
  "watching = run [Initialize Latest, FetchDone 0 (ApiMovies [film 1, film 2, film 3])] initial"

definition lonely :: explorer where
  "lonely = run [Initialize Latest, FetchDone 0 (ApiMovies [film 1])] initial"

definition busy_session :: "event list" where
  "busy_session =
     [Initialize Latest,
      FetchDone 0 (ApiMovies (map film [1, 2, 3, 4, 5, 6, 7, 8, 9, 10])),
      Rate Yes Latest, Rate No Latest, Rate Maybe Latest, Rate Yes Latest, Rate No Latest,
      Replenish Latest,
      FetchDone 0 (ApiMovies (map film [11, 12, 13, 14, 15, 16, 17, 18, 19, 20]))]"



section \<open>The guard invariant of the batch-fetch explorer\<close>

text \<open>
  A request is guarded when it was sent under the \<open>isReplenishing\<close> ref, that is by
  \<open>replenishQueue\<close> or by \<open>moveToNextMovie\<close>. \<open>flag_inv\<close>: the ref is set exactly
  while one guarded request is in flight, and there is never more than one.
\<close>

definition guarded :: "request \<Rightarrow> bool" where
  "guarded q = (caller q \<noteq> InitFetch)"

definition flag_inv :: "explorer \<Rightarrow> bool" where
  "flag_inv s = (length (filter guarded (pending s)) = (if isReplenishing s then 1 else 0))"

section \<open>Lemmas\<close>

lemma filter_remove_nth:
  "i < length xs \<Longrightarrow>
   length (filter P (remove_nth i xs)) = length (filter P xs) - (if P (xs ! i) then 1 else 0)"
proof -
  assume i: "i < length xs"
  have "xs = take i xs @ xs ! i # drop (Suc i) xs"
    using i by (rule id_take_nth_drop)
  then have "filter P xs = filter P (take i xs) @ filter P [xs ! i] @ filter P (drop (Suc i) xs)"
    by (metis append_Cons append_Nil filter_append)
  then show ?thesis
    by (simp add: remove_nth_def)
qed

lemma fetchMovies_resume_frame:
  "pending (snd (fetchMovies_resume r s)) = pending s"
  "isReplenishing (snd (fetchMovies_resume r s)) = isReplenishing s"
  "movieQueue (snd (fetchMovies_resume r s)) = movieQueue s"
  "currentMovie (snd (fetchMovies_resume r s)) = currentMovie s"
  "error (snd (fetchMovies_resume r s)) = error s"
  "loadingMovie (snd (fetchMovies_resume r s)) = loadingMovie s"
  "isInitialMount (snd (fetchMovies_resume r s)) = isInitialMount s"
  "writes (snd (fetchMovies_resume r s)) = writes s"
  "expanded (snd (fetchMovies_resume r s)) = expanded s"
  by (cases r; simp)+

lemma flag_inv_initial: "flag_inv initial"
  by (auto simp add: flag_inv_def initial_def)

lemma flag_inv_step: "flag_inv s \<Longrightarrow> flag_inv (step s e)"
proof (cases e)
  case (Initialize c)
  assume "flag_inv s"
  then show ?thesis using Initialize
    by (auto simp add: flag_inv_def initialize_def fetchMovies_request_def guarded_def Let_def
          split: if_splits)
next
  case (Replenish c)
  assume "flag_inv s"
  then show ?thesis using Replenish
    by (auto simp add: flag_inv_def queueEffect_def replenishQueue_def fetchMovies_request_def
          guarded_def Let_def split: if_splits)
next
  case (Advance c)
  assume "flag_inv s"
  then show ?thesis using Advance
    by (auto simp add: flag_inv_def moveToNextMovie_def fetchMovies_request_def guarded_def
          Let_def split: list.splits if_splits)
next
  case (Rate v c)
  assume "flag_inv s"
  then show ?thesis using Rate
    by (auto simp add: flag_inv_def handleRating_def moveToNextMovie_def fetchMovies_request_def
          guarded_def Let_def split: list.splits option.splits if_splits)
next
  case (FetchDone i a)
  assume inv: "flag_inv s"
  show ?thesis
  proof (cases "i < length (pending s)")
    case False
    then show ?thesis using inv FetchDone by (simp add: fetchDone_def)
  next
    case True
    note fr = filter_remove_nth [OF True, of guarded]
    show ?thesis
    proof (cases "caller (pending s ! i)")
      case InitFetch
      then show ?thesis using inv FetchDone True fr
        by (auto simp add: fetchDone_def flag_inv_def initialize_resume_def Let_def guarded_def
             split_beta fetchMovies_resume_frame split: list.splits if_splits)
    next
      case ReplenishFetch
      then show ?thesis using inv FetchDone True fr
        by (auto simp add: fetchDone_def flag_inv_def replenishQueue_resume_def Let_def
             guarded_def split_beta fetchMovies_resume_frame split: if_splits)
    next
      case AdvanceFetch
      then show ?thesis using inv FetchDone True fr
        by (auto simp add: fetchDone_def flag_inv_def moveToNextMovie_resume_def Let_def
             guarded_def split_beta fetchMovies_resume_frame split: list.splits if_splits)
    qed
  qed
next
  case (WriteDone i ok)
  assume "flag_inv s"
  then show ?thesis using WriteDone
    by (auto simp add: flag_inv_def writeDone_def handleRating_resume_def split: if_splits)
qed

lemma flag_inv_run: "flag_inv s \<Longrightarrow> flag_inv (run es s)"
  unfolding run_def by (induction es arbitrary: s) (simp_all add: flag_inv_step)

lemmas explorer_eval =
  run_def initial_def rendered_def initialize_def initialize_resume_def replenishQueue_def
  replenishQueue_resume_def queueEffect_def moveToNextMovie_def moveToNextMovie_resume_def
  handleRating_def handleRating_resume_def fetchDone_def writeDone_def remove_nth_def
  fetchMovies_request_def FETCH_SIZE_def MIN_QUEUE_SIZE_def Let_def

lemmas single_eval =
  run_single_def initial_single_def rendered_single_def mount_single_def
  initialize_single_def initialize_single_resume_def
  replenishQueue_single_def replenishQueue_single_resume_def queueEffect_single_def
  moveToNextMovie_single_def moveToNextMovie_single_resume_def handleRating_single_def
  handleRating_single_resume_def fetchDone_single_def writeDone_single_def remove_nth_def
  QUEUE_SIZE_def Let_def

lemma filter_mono_length:
  "(\<And>x. P x \<Longrightarrow> Q x) \<Longrightarrow> length (filter P xs) \<le> length (filter Q xs)"
  by (induction xs) auto

text \<open>Evaluation of the sample states.\<close>

lemma watching_eval:
  "watching = \<lparr> currentMovie = Some (shown 1), movieQueue = [shown 2, shown 3],
     loadingMovie = False, seenMovieIds = [1, 2, 3], error = None, expanded = False,
     isInitialMount = False, isReplenishing = False, pending = [], writes = [],
     console = [] \<rparr>"
  by (simp add: watching_def explorer_eval shown_def film_def)

lemma lonely_eval:
  "lonely = \<lparr> currentMovie = Some (shown 1), movieQueue = [],
     loadingMovie = False, seenMovieIds = [1], error = None, expanded = False,
     isInitialMount = False, isReplenishing = False, pending = [], writes = [],
     console = [] \<rparr>"
  by (simp add: lonely_def explorer_eval shown_def film_def)



lemma browsing_eval:
  "browsing u = \<lparr> movieData = Some (listed 1), nextMovieData = Some (listed 2),
     loading = False, error_page = None, submitting = False, snackbar_open = False,
     snackbar_message = [], user = u, started = [], attempts = 2, sleeps = [],
     console_page = [] \<rparr>"
  by (simp add: browsing_def preloadNextMovie_def fetchNextMovie_def fetchNextMovie_from_def
      fetchMovieFromAPI_def fetchMovieFromAPI_loop.simps serving_def initial_page_def
      processMovieData_def listed_def maxRetries_def Let_def)

lemma busy_session_queue:
  "movieQueue (run busy_session initial) =
     map shown [7, 8, 9, 10, 11, 12, 13, 14, 15, 16, 17, 18, 19, 20]"
  by (simp add: busy_session_def explorer_eval shown_def)

text \<open>The list of seen identifiers only ever grows at its end.\<close>

lemma fetchMovies_resume_seen_grows:
  "\<exists>ids. seenMovieIds (snd (fetchMovies_resume a s)) = seenMovieIds s @ ids"
  by (cases a) simp_all

lemma fetchDone_seen:
  "i < length (pending s) \<Longrightarrow>
   seenMovieIds (fetchDone i a s) = seenMovieIds (snd (fetchMovies_resume a s))"
  by (cases a)
     (simp_all add: fetchDone_def initialize_resume_def replenishQueue_resume_def
       moveToNextMovie_resume_def Let_def split: caller.splits list.splits)

lemma step_seen_grows: "\<exists>ids. seenMovieIds (step s e) = seenMovieIds s @ ids"
proof (cases e)
  case (FetchDone i a)
  show ?thesis
  proof (cases "i < length (pending s)")
    case True
    then show ?thesis
      using FetchDone fetchMovies_resume_seen_grows [of a s] by (simp add: fetchDone_seen)
  next
    case False
    then show ?thesis using FetchDone by (simp add: fetchDone_def)
  qed
qed (simp_all add: initialize_def queueEffect_def replenishQueue_def moveToNextMovie_def
       handleRating_def writeDone_def handleRating_resume_def Let_def
       split: list.splits option.splits)


text \<open>
  The queue grows only when an answer arrives, and then by no more than the movies the
  answer holds.
\<close>

lemma fst_fetchMovies_resume_length:
  "length (fst (fetchMovies_resume a s)) = (case a of ApiMovies ms \<Rightarrow> length ms | _ \<Rightarrow> 0)"
  by (cases a) simp_all

lemma fetchDone_queue_growth:
  "length (movieQueue (fetchDone i a s))
     \<le> length (movieQueue s) + (case a of ApiMovies ms \<Rightarrow> length ms | _ \<Rightarrow> 0)"
proof (cases "i < length (pending s)")
  case False
  then show ?thesis by (simp add: fetchDone_def)
next
  case True
  let ?s1 = "s\<lparr> pending := remove_nth i (pending s) \<rparr>"
  note len = fst_fetchMovies_resume_length [of a ?s1]
  show ?thesis
  proof (cases "caller (pending s ! i)")
    case InitFetch
    then show ?thesis using True len
      by (auto simp add: fetchDone_def initialize_resume_def Let_def split_beta
            fetchMovies_resume_frame split: list.splits)
  next
    case ReplenishFetch
    then show ?thesis using True len
      by (auto simp add: fetchDone_def replenishQueue_resume_def Let_def split_beta
            fetchMovies_resume_frame)
  next
    case AdvanceFetch
    then show ?thesis using True
      by (auto simp add: fetchDone_def moveToNextMovie_resume_def Let_def split_beta
            fetchMovies_resume_frame split: list.splits)
  qed
qed

lemma step_queue_growth:
  "length (movieQueue (step s e)) \<le> length (movieQueue s) + returned [e]"
proof (cases e)
  case (FetchDone i a)
  then show ?thesis
    using fetchDone_queue_growth [of i a s] by (cases a) simp_all
qed (simp_all add: initialize_def queueEffect_def replenishQueue_def moveToNextMovie_def
       handleRating_def writeDone_def handleRating_resume_def fetchMovies_request_def Let_def
       split: list.splits option.splits)

lemma returned_Cons: "returned (e # es) = returned [e] + returned es"
proof (cases e)
  case (FetchDone i a)
  then show ?thesis by (cases a) simp_all
qed simp_all

lemma run_queue_growth:
  "length (movieQueue (run es s)) \<le> length (movieQueue s) + returned es"
proof (induction es arbitrary: s)
  case Nil
  show ?case by (simp add: run_def)
next
  case (Cons e es)
  have "length (movieQueue (run (e # es) s)) = length (movieQueue (run es (step s e)))"
    by (simp add: run_def)
  also have "\<dots> \<le> length (movieQueue (step s e)) + returned es"
    by (rule Cons.IH)
  also have "\<dots> \<le> length (movieQueue s) + returned [e] + returned es"
    using step_queue_growth [of s e] by simp
  finally show ?case
    using returned_Cons [of e es] by simp
qed

text \<open>The joint fetch of the legacy explorer returns the answers that are movies.\<close>

lemma fetchMovie_all_valid:
  "fst (fetchMovie_all answers s) = map the (filter (\<lambda>a. a \<noteq> None) answers)"
proof (induction answers arbitrary: s)
  case Nil
  show ?case by simp
next
  case (Cons a answers)
  show ?case
    by (cases a) (simp_all add: split_beta Cons.IH)
qed

lemma fetchMovie_all_state:
  "snd (fetchMovie_all answers s) =
     s\<lparr> console_single := console_single s @
          replicate (length (filter (\<lambda>a. a = None) answers)) ''Failed to fetch movie:'' \<rparr>"
proof (induction answers arbitrary: s)
  case Nil
  show ?case by simp
next
  case (Cons a answers)
  show ?case
    by (cases a) (simp_all add: split_beta Cons.IH replicate_app_Cons_same)
qed

lemma fetchDone_single_queue_growth:
  "length (movieQueue_single (fetchDone_single i answers s))
     \<le> length (movieQueue_single s) + length (filter (\<lambda>a. a \<noteq> None) answers)"
proof (cases "i < length (pending_single s) \<and> length answers = fetches (pending_single s ! i)")
  case False
  then show ?thesis by (auto simp add: fetchDone_single_def)
next
  case True
  show ?thesis
  proof (cases "awaited_by (pending_single s ! i)")
    case InitFetch
    then show ?thesis using True
      by (auto simp add: fetchDone_single_def initialize_single_resume_def Let_def split_beta
            fetchMovie_all_valid fetchMovie_all_state split: list.splits)
  next
    case ReplenishFetch
    then show ?thesis using True
      by (auto simp add: fetchDone_single_def replenishQueue_single_resume_def Let_def split_beta
            fetchMovie_all_valid fetchMovie_all_state)
  next
    case AdvanceFetch
    then show ?thesis using True
      by (auto simp add: fetchDone_single_def moveToNextMovie_single_resume_def Let_def
            split_beta split: list.splits option.splits)
  qed
qed

lemma step_single_queue_growth:
  "length (movieQueue_single (step_single s e))
     \<le> length (movieQueue_single s) + returned_single [e]"
proof (cases e)
  case (FetchDone_single i answers)
  then show ?thesis
    using fetchDone_single_queue_growth [of i answers s] by simp
qed (simp_all add: initialize_single_def queueEffect_single_def replenishQueue_single_def
       moveToNextMovie_single_def handleRating_single_def writeDone_single_def
       handleRating_single_resume_def Let_def split: list.splits option.splits)

lemma returned_single_Cons:
  "returned_single (e # es) = returned_single [e] + returned_single es"
  by (cases e) simp_all

lemma run_single_queue_growth:
  "length (movieQueue_single (run_single es s))
     \<le> length (movieQueue_single s) + returned_single es"
proof (induction es arbitrary: s)
  case Nil
  show ?case by (simp add: run_single_def)
next
  case (Cons e es)
  have "length (movieQueue_single (run_single (e # es) s))
          = length (movieQueue_single (run_single es (step_single s e)))"
    by (simp add: run_single_def)
  also have "\<dots> \<le> length (movieQueue_single (step_single s e)) + returned_single es"
    by (rule Cons.IH)
  also have "\<dots> \<le> length (movieQueue_single s) + returned_single [e] + returned_single es"
    using step_single_queue_growth [of s e] by simp
  finally show ?case
    using returned_single_Cons [of e es] by simp
qed

text \<open>The retry loop against a source that always answers with status code 34.\<close>

lemma loop_transient_last:
  assumes "upstream (attempts s) = Json data" and "status_code data = Some 34"
  shows "fetchMovieFromAPI_loop upstream 2 s = (Inr None, s\<lparr> attempts := attempts s + 1 \<rparr>)"
  using assms by (subst fetchMovieFromAPI_loop.simps) (simp add: maxRetries_def Let_def)

lemma loop_transient_first:
  assumes "upstream (attempts s) = Json data" and "status_code data = Some 34"
  shows "fetchMovieFromAPI_loop upstream 0 s =
           fetchMovieFromAPI_loop upstream 1
             (s\<lparr> attempts := attempts s + 1, sleeps := sleeps s @ [1000] \<rparr>)"
  using assms by (subst fetchMovieFromAPI_loop.simps) (simp add: maxRetries_def Let_def)

lemma loop_transient_second:
  assumes "upstream (attempts s) = Json data" and "status_code data = Some 34"
  shows "fetchMovieFromAPI_loop upstream 1 s =
           fetchMovieFromAPI_loop upstream 2
             (s\<lparr> attempts := attempts s + 1, sleeps := sleeps s @ [2000] \<rparr>)"
  using assms by (subst fetchMovieFromAPI_loop.simps) (simp add: maxRetries_def Let_def numeral_2_eq_2)

lemma fetchMovieFromAPI_transient:
  assumes up: "\<forall>n. \<exists>data. upstream n = Json data \<and> status_code data = Some 34"
  shows "fetchMovieFromAPI upstream s =
           (Inr None, s\<lparr> attempts := attempts s + 3, sleeps := sleeps s @ [1000, 2000] \<rparr>)"
proof -
  obtain d0 where d0: "upstream (attempts s) = Json d0" "status_code d0 = Some 34"
    using up by blast
  let ?s1 = "s\<lparr> attempts := attempts s + 1, sleeps := sleeps s @ [1000] \<rparr>"
  obtain d1 where d1: "upstream (attempts ?s1) = Json d1" "status_code d1 = Some 34"
    using up by blast
  let ?s2 = "?s1\<lparr> attempts := attempts ?s1 + 1, sleeps := sleeps ?s1 @ [2000] \<rparr>"
  obtain d2 where d2: "upstream (attempts ?s2) = Json d2" "status_code d2 = Some 34"
    using up by blast
  have "fetchMovieFromAPI upstream s = fetchMovieFromAPI_loop upstream 1 ?s1"
    unfolding fetchMovieFromAPI_def by (rule loop_transient_first [of upstream s d0]) (rule d0)+
  also have "\<dots> = fetchMovieFromAPI_loop upstream 2 ?s2"
    by (rule loop_transient_second [of upstream ?s1 d1]) (rule d1)+
  also have "\<dots> = (Inr None, ?s2\<lparr> attempts := attempts ?s2 + 1 \<rparr>)"
    by (rule loop_transient_last [of upstream ?s2 d2]) (rule d2)+
  finally show ?thesis by simp
qed

lemma always34_transient: "\<forall>n. \<exists>data. always34 n = Json data \<and> status_code data = Some 34"
  by (simp add: always34_def)

section \<open>The claims\<close>

text \<open>
  C1 (amended). In the batch-fetch explorer at most one replenishment fetch is in flight
  in every reachable state, however renders and effects are scheduled, and while one is
  in flight another call of \<open>replenishQueue\<close>, from any render, directly or through the
  queue effect, changes nothing: it sends no request. (The legacy single-fetch explorer
  has no such guard.)
\<close>

theorem replenish_at_most_one_in_flight:
  "length (filter (\<lambda>q. caller q = ReplenishFetch) (pending (run es initial))) \<le> 1 \<and>
   ((\<exists>q \<in> set (pending (run es initial)). caller q = ReplenishFetch) \<longrightarrow>
      replenishQueue r (run es initial) = run es initial \<and>
      queueEffect r (run es initial) = run es initial)"
proof -
  let ?s = "run es initial"
  have inv: "flag_inv ?s"
    by (rule flag_inv_run [OF flag_inv_initial])
  have "length (filter (\<lambda>q. caller q = ReplenishFetch) (pending ?s))
          \<le> length (filter guarded (pending ?s))"
    by (rule filter_mono_length) (simp add: guarded_def)
  also have "\<dots> \<le> 1"
    using inv by (simp add: flag_inv_def)
  finally have one: "length (filter (\<lambda>q. caller q = ReplenishFetch) (pending ?s)) \<le> 1" .
  have noop: "replenishQueue r ?s = ?s \<and> queueEffect r ?s = ?s"
    if "\<exists>q \<in> set (pending ?s). caller q = ReplenishFetch"
  proof -
    from that obtain q where q: "q \<in> set (pending ?s)" "caller q = ReplenishFetch"
      by blast
    then have "guarded q"
      by (simp add: guarded_def)
    with q have "filter guarded (pending ?s) \<noteq> []"
      by (auto simp add: filter_empty_conv)
    then have "isReplenishing ?s"
      using inv by (auto simp add: flag_inv_def split: if_splits)
    then show ?thesis
      by (simp add: replenishQueue_def queueEffect_def)
  qed
  show ?thesis using one noop by blast
qed

text \<open>
  C1, witness: after an initial batch of one movie the queue effect starts a
  replenishment; a second call, here from the render that showed the single movie, then
  returns the state as it is.
\<close>

theorem replenish_at_most_one_in_flight_witness:
  "(\<exists>q \<in> set (pending (run [Initialize Latest, FetchDone 0 (ApiMovies [film 1]),
                               Replenish Latest] initial)).
      caller q = ReplenishFetch) \<and>
   replenishQueue (rendered lonely)
     (run [Initialize Latest, FetchDone 0 (ApiMovies [film 1]), Replenish Latest] initial)
     = run [Initialize Latest, FetchDone 0 (ApiMovies [film 1]), Replenish Latest] initial"
proof -
  have p: "\<exists>q \<in> set (pending (run [Initialize Latest, FetchDone 0 (ApiMovies [film 1]),
                               Replenish Latest] initial)).
      caller q = ReplenishFetch"
    by (simp add: explorer_eval)
  show ?thesis
    using p replenish_at_most_one_in_flight
      [of "[Initialize Latest, FetchDone 0 (ApiMovies [film 1]), Replenish Latest]"
          "rendered lonely"]
    by blast
qed

text \<open>
  C1 as stated fails on the legacy single-fetch explorer. At mount \<open>initialize\<close> and
  the queue effect both fetch; once both have resolved, two ratings in quick succession
  leave the replenishment started after the first rating in flight when the queue effect
  runs again, and that second call sends two more requests.
\<close>

theorem replenish_single_twice_counterexample:
  "pending_single (run_single
     [Initialize_single, Replenish_single (From (rendered_single initial_single)),
      FetchDone_single 1 [Some (film 5), Some (film 6), Some (film 7)],
      FetchDone_single 0 [Some (film 1), Some (film 2), Some (film 3), Some (film 4)],
      Rate_single Yes Latest, Replenish_single Latest, Rate_single No Latest] initial_single)
     = [\<lparr> awaited_by = ReplenishFetch, fetches = 1 \<rparr>] \<and>
   pending_single (run_single
     [Initialize_single, Replenish_single (From (rendered_single initial_single)),
      FetchDone_single 1 [Some (film 5), Some (film 6), Some (film 7)],
      FetchDone_single 0 [Some (film 1), Some (film 2), Some (film 3), Some (film 4)],
      Rate_single Yes Latest, Replenish_single Latest, Rate_single No Latest,
      Replenish_single Latest] initial_single)
     = [\<lparr> awaited_by = ReplenishFetch, fetches = 1 \<rparr>,
        \<lparr> awaited_by = ReplenishFetch, fetches = 2 \<rparr>]"
  by (simp add: single_eval)

text \<open>
  C2 (amended). With a current movie and a non-empty buffer, rating in the batch-fetch
  explorer (the handler of the render that shows the state) makes the head of the buffer
  current and removes it from the buffer in the handler itself, and only then sends the
  write, which is left in flight; called from any render, the handler makes the head
  of that render's buffer current and takes the first movie off the buffer as it is. The
  legacy rating page does the same with its one
  preloaded movie, provided a user is logged in and the current movie has a non-zero
  identifier; with a zero identifier, or with no user logged in, rating only opens the
  snackbar with its message and changes nothing else: it neither advances nor writes.
\<close>

theorem rate_advances_immediately:
  "(currentMovie s = Some x \<and> movieQueue s = a # rest \<longrightarrow>
      currentMovie (handleRating v (rendered s) s) = Some a \<and>
      movieQueue (handleRating v (rendered s) s) = rest \<and>
      writes (handleRating v (rendered s) s) = writes s @ [(movie_id x, numericRating v)]) \<and>
   (currentMovie_r r = Some x \<and> movieQueue_r r = a # rest \<longrightarrow>
      handleRating v r s =
        s\<lparr> currentMovie := Some a, movieQueue := drop 1 (movieQueue s), expanded := False,
           writes := writes s @ [(movie_id x, numericRating v)] \<rparr>) \<and>
   (movieData p = Some y \<and> nextMovieData p = Some b \<and> movie_id y \<noteq> 0 \<and> user p = Some u \<longrightarrow>
      movieData (submitRating v p) = Some b \<and>
      nextMovieData (submitRating v p) = None \<and>
      started (submitRating v p) = started p @
        [PreloadNextMovie,
         PostRating \<lparr> payload_user_id = user_id u, payload_movie_id = movie_id y,
                      payload_rating = selectionToRating v \<rparr>]) \<and>
   (movieData p = Some y \<and> movie_id y = 0 \<longrightarrow>
      submitRating v p =
        p\<lparr> snackbar_open := True,
           snackbar_message := ''Cannot submit rating: Movie ID not available'' \<rparr>) \<and>
   (movieData p = Some y \<and> movie_id y \<noteq> 0 \<and> user p = None \<longrightarrow>
      submitRating v p =
        p\<lparr> snackbar_open := True, snackbar_message := ''Please log in to rate movies'' \<rparr>)"
  by (simp add: handleRating_def moveToNextMovie_def rendered_def submitRating_def Let_def)

text \<open>
  C2, witness: the explorer after an initial batch of three movies; the rating page of
  a logged-in user with a preloaded movie; the rating page whose first fetch met only
  status code 34 and so shows the empty movie, with identifier 0; the rating page of a
  visitor who is not logged in.
\<close>

theorem rate_advances_immediately_witness:
  "currentMovie watching = Some (shown 1) \<and> movieQueue watching = [shown 2, shown 3] \<and>
   currentMovie (handleRating Yes (rendered watching) watching) = Some (shown 2) \<and>
   movieQueue (handleRating Yes (rendered watching) watching) = [shown 3] \<and>
   writes (handleRating Yes (rendered watching) watching) = [(1, 5)] \<and>
   currentMovie_r (rendered watching) = Some (shown 1) \<and>
   movieQueue_r (rendered watching) = [shown 2, shown 3] \<and>
   handleRating Yes (rendered watching) watching =
     watching\<lparr> currentMovie := Some (shown 2), movieQueue := drop 1 (movieQueue watching),
                 expanded := False,
                 writes := writes watching @ [(movie_id (shown 1), numericRating Yes)] \<rparr> \<and>
   movieData (browsing (Some \<lparr> user_id = 7 \<rparr>)) = Some (listed 1) \<and>
   nextMovieData (browsing (Some \<lparr> user_id = 7 \<rparr>)) = Some (listed 2) \<and>
   movie_id (listed 1) \<noteq> 0 \<and>
   user (browsing (Some \<lparr> user_id = 7 \<rparr>)) = Some \<lparr> user_id = 7 \<rparr> \<and>
   movieData (submitRating Yes (browsing (Some \<lparr> user_id = 7 \<rparr>))) = Some (listed 2) \<and>
   nextMovieData (submitRating Yes (browsing (Some \<lparr> user_id = 7 \<rparr>))) = None \<and>
   movieData (fetchNextMovie always34 (initial_page None)) = Some emptyMovie \<and>
   movie_id emptyMovie = 0 \<and>
   submitRating Yes (fetchNextMovie always34 (initial_page None)) =
     (fetchNextMovie always34 (initial_page None))
       \<lparr> snackbar_open := True,
         snackbar_message := ''Cannot submit rating: Movie ID not available'' \<rparr> \<and>
   user (browsing None) = None \<and>
   submitRating Yes (browsing None) =
     (browsing None)\<lparr> snackbar_open := True,
                      snackbar_message := ''Please log in to rate movies'' \<rparr>"
proof -
  let ?u = "\<lparr> user_id = 7 \<rparr>"
  have w: "currentMovie watching = Some (shown 1) \<and> movieQueue watching = [shown 2, shown 3]"
    by (simp add: watching_eval)
  have l: "movieData (browsing (Some ?u)) = Some (listed 1) \<and>
           nextMovieData (browsing (Some ?u)) = Some (listed 2) \<and>
           movie_id (listed 1) \<noteq> 0 \<and> user (browsing (Some ?u)) = Some ?u"
    by (simp add: browsing_eval listed_def)
  have e: "movieData (fetchNextMovie always34 (initial_page None)) = Some emptyMovie \<and>
           movie_id emptyMovie = 0"
    by (simp add: fetchNextMovie_def fetchNextMovie_from_def fetchMovieFromAPI_def
        fetchMovieFromAPI_loop.simps always34_def initial_page_def keep_or_empty_def
        maxRetries_def emptyMovie_def Let_def)
  have n: "movieData (browsing None) = Some (listed 1) \<and> movie_id (listed 1) \<noteq> 0 \<and>
           user (browsing None) = None"
    by (simp add: browsing_eval listed_def)
  have c1: "currentMovie (handleRating Yes (rendered watching) watching) = Some (shown 2) \<and>
            movieQueue (handleRating Yes (rendered watching) watching) = [shown 3] \<and>
            writes (handleRating Yes (rendered watching) watching)
              = writes watching @ [(movie_id (shown 1), numericRating Yes)]"
    using w rate_advances_immediately [of watching "shown 1" "shown 2" "[shown 3]" Yes
        "rendered watching" "browsing (Some ?u)" "listed 1" "listed 2" ?u]
    by blast
  have c2: "movieData (submitRating Yes (browsing (Some ?u))) = Some (listed 2) \<and>
            nextMovieData (submitRating Yes (browsing (Some ?u))) = None"
    using l rate_advances_immediately [of watching "shown 1" "shown 2" "[shown 3]" Yes
        "rendered watching" "browsing (Some ?u)" "listed 1" "listed 2" ?u]
    by blast
  have c3: "submitRating Yes (fetchNextMovie always34 (initial_page None)) =
     (fetchNextMovie always34 (initial_page None))
       \<lparr> snackbar_open := True,
         snackbar_message := ''Cannot submit rating: Movie ID not available'' \<rparr>"
    using e rate_advances_immediately [of watching "shown 1" "shown 2" "[shown 3]" Yes
        "rendered watching" "fetchNextMovie always34 (initial_page None)" emptyMovie
        "listed 2" ?u]
    by blast
  have c4: "submitRating Yes (browsing None) =
     (browsing None)\<lparr> snackbar_open := True,
                      snackbar_message := ''Please log in to rate movies'' \<rparr>"
    using n rate_advances_immediately [of watching "shown 1" "shown 2" "[shown 3]" Yes
        "rendered watching" "browsing None" "listed 1" "listed 2" ?u]
    by blast
  have wc: "currentMovie_r (rendered watching) = Some (shown 1) \<and>
            movieQueue_r (rendered watching) = [shown 2, shown 3]"
    using w by (simp add: rendered_def)
  have c0: "handleRating Yes (rendered watching) watching =
     watching\<lparr> currentMovie := Some (shown 2), movieQueue := drop 1 (movieQueue watching),
                 expanded := False,
                 writes := writes watching @ [(movie_id (shown 1), numericRating Yes)] \<rparr>"
    using wc rate_advances_immediately [of watching "shown 1" "shown 2" "[shown 3]" Yes
        "rendered watching" "browsing (Some ?u)" "listed 1" "listed 2" ?u]
    by blast
  have wr: "writes watching @ [(movie_id (shown 1), numericRating Yes)] = [(1, 5)]"
    by (simp add: watching_eval shown_def film_def normalizeMovie_def)
  show ?thesis
    using w wc l e n c0 c1 c2 c3 c4 wr by simp
qed

text \<open>
  C2 as stated fails on the legacy rating page: with a current movie and a preloaded
  movie but no user logged in, rating leaves both as they are, sends nothing and opens
  the snackbar.
\<close>

theorem rate_refused_without_user_counterexample:
  "movieData (browsing None) = Some (listed 1) \<and>
   nextMovieData (browsing None) = Some (listed 2) \<and>
   movieData (submitRating Yes (browsing None)) = Some (listed 1) \<and>
   nextMovieData (submitRating Yes (browsing None)) = Some (listed 2) \<and>
   started (submitRating Yes (browsing None)) = [] \<and>
   snackbar_open (submitRating Yes (browsing None)) \<and>
   snackbar_message (submitRating Yes (browsing None)) = ''Please log in to rate movies'' \<and>
   listed 1 \<noteq> listed 2"
  by (simp add: browsing_eval submitRating_def listed_def)

text \<open>
  C3 (amended). In both explorers, for every sequence of operations from the initial
  state and however renders and effects are scheduled, the length of the buffer is at
  least 0 and at most the number of movies the source has returned so far: no operation
  makes the buffer longer except the arrival of an answer, and that by no more than the
  movies it holds. The queue effect starts no replenishment from a render whose buffer
  has reached the threshold (\<open>MIN_QUEUE_SIZE\<close>, \<open>QUEUE_SIZE\<close> in the legacy explorer).
  The target itself is no bound.
\<close>

theorem buffer_grows_by_answers:
  "0 \<le> length (movieQueue (run es initial)) \<and>
   length (movieQueue (run es initial)) \<le> returned es \<and>
   length (movieQueue (step s e)) \<le> length (movieQueue s) + returned [e] \<and>
   (\<not> length (movieQueue_r r) < MIN_QUEUE_SIZE \<longrightarrow> queueEffect r s = s) \<and>
   0 \<le> length (movieQueue_single (run_single es1 initial_single)) \<and>
   length (movieQueue_single (run_single es1 initial_single)) \<le> returned_single es1 \<and>
   length (movieQueue_single (step_single t e1))
     \<le> length (movieQueue_single t) + returned_single [e1] \<and>
   (\<not> length (movieQueue_rs r1) < QUEUE_SIZE \<longrightarrow> queueEffect_single r1 t = t)"
proof -
  have a: "length (movieQueue (run es initial)) \<le> returned es"
    using run_queue_growth [of es initial] by (simp add: initial_def)
  have b: "length (movieQueue_single (run_single es1 initial_single)) \<le> returned_single es1"
    using run_single_queue_growth [of es1 initial_single] by (simp add: initial_single_def)
  have c: "\<not> length (movieQueue_r r) < MIN_QUEUE_SIZE \<longrightarrow> queueEffect r s = s"
    by (simp add: queueEffect_def)
  have d: "\<not> length (movieQueue_rs r1) < QUEUE_SIZE \<longrightarrow> queueEffect_single r1 t = t"
    by (simp add: queueEffect_single_def)
  show ?thesis
    using a b c d step_queue_growth [of s e] step_single_queue_growth [of t e1] by simp
qed

text \<open>
  C3, witness: the renders after a full initial batch in the batch-fetch explorer and
  after the four initial movies in the legacy one; their queue effects start nothing.
\<close>

theorem buffer_grows_by_answers_witness:
  "\<not> length (movieQueue_r (rendered (run
        [Initialize Latest,
         FetchDone 0 (ApiMovies (map film [1, 2, 3, 4, 5, 6, 7, 8, 9, 10]))] initial)))
      < MIN_QUEUE_SIZE \<and>
   queueEffect (rendered (run
        [Initialize Latest,
         FetchDone 0 (ApiMovies (map film [1, 2, 3, 4, 5, 6, 7, 8, 9, 10]))] initial))
      watching = watching \<and>
   \<not> length (movieQueue_rs (rendered_single (run_single
        [Initialize_single, Replenish_single (From (rendered_single initial_single)),
         FetchDone_single 0 [Some (film 1), Some (film 2), Some (film 3), Some (film 4)]]
        initial_single)))
      < QUEUE_SIZE \<and>
   queueEffect_single (rendered_single (run_single
        [Initialize_single, Replenish_single (From (rendered_single initial_single)),
         FetchDone_single 0 [Some (film 1), Some (film 2), Some (film 3), Some (film 4)]]
        initial_single))
      initial_single = initial_single"
proof -
  let ?r = "rendered (run
        [Initialize Latest,
         FetchDone 0 (ApiMovies (map film [1, 2, 3, 4, 5, 6, 7, 8, 9, 10]))] initial)"
  let ?r1 = "rendered_single (run_single
        [Initialize_single, Replenish_single (From (rendered_single initial_single)),
         FetchDone_single 0 [Some (film 1), Some (film 2), Some (film 3), Some (film 4)]]
        initial_single)"
  have a: "\<not> length (movieQueue_r ?r) < MIN_QUEUE_SIZE"
    by (simp add: explorer_eval)
  have b: "\<not> length (movieQueue_rs ?r1) < QUEUE_SIZE"
    by (simp add: single_eval)
  show ?thesis
    using a b buffer_grows_by_answers [of "[]" watching "Replenish Latest" ?r "[]"
        initial_single Initialize_single ?r1]
    by blast
qed

text \<open>
  C3 as stated fails in both explorers. Batch-fetch: after a full initial batch and five
  ratings the buffer holds four movies, the queue effect replenishes, and the full batch
  of ten is appended, which makes fourteen. When the queue effect of a render that showed
  two movies runs only after the answer to the replenishment in flight, a second batch is
  fetched and the buffer reaches twenty-two. Legacy: at mount the queue effect fetches
  three movies next to the four of \<open>initialize\<close>, and the buffer holds six.
\<close>

theorem buffer_exceeds_target_counterexample:
  "length (movieQueue (run busy_session initial)) = 14 \<and>
   \<not> length (movieQueue (run busy_session initial)) \<le> FETCH_SIZE \<and>
   length (movieQueue (run
     [Initialize Latest, FetchDone 0 (ApiMovies [film 1, film 2, film 3, film 4]),
      Replenish Latest, Rate Yes Latest,
      FetchDone 0 (ApiMovies (map film [5, 6, 7, 8, 9, 10, 11, 12, 13, 14])),
      Replenish (From (rendered (run
        [Initialize Latest, FetchDone 0 (ApiMovies [film 1, film 2, film 3, film 4]),
         Replenish Latest, Rate Yes Latest] initial))),
      FetchDone 0 (ApiMovies (map film [15, 16, 17, 18, 19, 20, 21, 22, 23, 24]))]
     initial)) = 22 \<and>
   length (movieQueue_single (run_single
     [Initialize_single, Replenish_single (From (rendered_single initial_single)),
      FetchDone_single 0 [Some (film 1), Some (film 2), Some (film 3), Some (film 4)],
      FetchDone_single 0 [Some (film 5), Some (film 6), Some (film 7)]]
     initial_single)) = 6 \<and>
   \<not> length (movieQueue_single (run_single
     [Initialize_single, Replenish_single (From (rendered_single initial_single)),
      FetchDone_single 0 [Some (film 1), Some (film 2), Some (film 3), Some (film 4)],
      FetchDone_single 0 [Some (film 5), Some (film 6), Some (film 7)]]
     initial_single)) \<le> QUEUE_SIZE"
proof -
  have a: "length (movieQueue (run busy_session initial)) = 14"
    by (simp add: busy_session_queue)
  have b: "length (movieQueue (run
     [Initialize Latest, FetchDone 0 (ApiMovies [film 1, film 2, film 3, film 4]),
      Replenish Latest, Rate Yes Latest,
      FetchDone 0 (ApiMovies (map film [5, 6, 7, 8, 9, 10, 11, 12, 13, 14])),
      Replenish (From (rendered (run
        [Initialize Latest, FetchDone 0 (ApiMovies [film 1, film 2, film 3, film 4]),
         Replenish Latest, Rate Yes Latest] initial))),
      FetchDone 0 (ApiMovies (map film [15, 16, 17, 18, 19, 20, 21, 22, 23, 24]))]
     initial)) = 22"
    by (simp add: explorer_eval)
  have c: "length (movieQueue_single (run_single
     [Initialize_single, Replenish_single (From (rendered_single initial_single)),
      FetchDone_single 0 [Some (film 1), Some (film 2), Some (film 3), Some (film 4)],
      FetchDone_single 0 [Some (film 5), Some (film 6), Some (film 7)]]
     initial_single)) = 6"
    by (simp add: single_eval)
  show ?thesis
    using a b c by (simp add: FETCH_SIZE_def QUEUE_SIZE_def)
qed

text \<open>
  C4 (amended). Against a source that always answers with status code 34, one call of
  \<open>fetchMovieFromAPI\<close> makes exactly three attempts, waits 1000 ms and then 2000 ms
  between them, and returns \<open>null\<close> without an error. The foreground fetch
  \<open>fetchNextMovie\<close> makes that call twice, 1000 ms apart, six attempts in all, and
  shows no error: the error state and the snackbar stay as they were, loading ends, and
  the previous movie is kept, or the empty movie when there was none.
\<close>

theorem retry_bound_and_backoff:
  assumes up: "\<forall>n. \<exists>data. upstream n = Json data \<and> status_code data = Some 34"
  shows "fetchMovieFromAPI upstream s =
           (Inr None, s\<lparr> attempts := attempts s + 3, sleeps := sleeps s @ [1000, 2000] \<rparr>)
         \<and> fetchNextMovie upstream s =
           s\<lparr> movieData := (if movieData s = None then Some emptyMovie else movieData s),
              loading := False,
              attempts := attempts s + 6,
              sleeps := sleeps s @ [1000, 2000, 1000, 1000, 2000],
              console_page := console_page s @ [''Failed to fetch movie data after silent retry''] \<rparr>
         \<and> error_page (fetchNextMovie upstream s) = error_page s
         \<and> snackbar_open (fetchNextMovie upstream s) = snackbar_open s"
proof -
  note t = fetchMovieFromAPI_transient [OF up]
  have n: "fetchNextMovie upstream s =
           s\<lparr> movieData := (if movieData s = None then Some emptyMovie else movieData s),
              loading := False,
              attempts := attempts s + 6,
              sleeps := sleeps s @ [1000, 2000, 1000, 1000, 2000],
              console_page := console_page s @ [''Failed to fetch movie data after silent retry''] \<rparr>"
    by (simp add: fetchNextMovie_def fetchNextMovie_from_def t keep_or_empty_def Let_def)
  show ?thesis
    using t n by simp
qed

text \<open>
  C4, witness: the source \<open>always34\<close> and the page at mount.
\<close>

theorem retry_bound_and_backoff_witness:
  "(\<forall>n. \<exists>data. always34 n = Json data \<and> status_code data = Some 34) \<and>
   fetchMovieFromAPI always34 (initial_page None) =
     (Inr None, (initial_page None)\<lparr> attempts := 3, sleeps := [1000, 2000] \<rparr>)"
  using always34_transient retry_bound_and_backoff [OF always34_transient, of "initial_page None"]
  by (simp add: initial_page_def)

text \<open>
  C4 as stated fails: at mount, against \<open>always34\<close>, the foreground fetch makes six
  attempts, its delays are not increasing, and it ends with no error shown.
\<close>

theorem foreground_fetch_six_attempts_no_error_counterexample:
  "attempts (fetchNextMovie always34 (initial_page None)) = 6 \<and>
   sleeps (fetchNextMovie always34 (initial_page None)) = [1000, 2000, 1000, 1000, 2000] \<and>
   error_page (fetchNextMovie always34 (initial_page None)) = None \<and>
   \<not> snackbar_open (fetchNextMovie always34 (initial_page None)) \<and>
   movieData (fetchNextMovie always34 (initial_page None)) = Some emptyMovie"
  by (simp add: fetchNextMovie_def fetchNextMovie_from_def fetchMovieFromAPI_def
      fetchMovieFromAPI_loop.simps always34_def initial_page_def keep_or_empty_def
      maxRetries_def Let_def)

text \<open>
  C5 (amended). With current movie X and buffer A, B, ..., rating makes A current and
  leaves the tail as buffer whether the write then fails or succeeds. In the batch-fetch
  explorer the outcome of a write changes nothing but the list of writes in flight and,
  when it fails, the console: the state after a failed write is the state after a
  successful one with one console diagnostic more, and no error is shown. In the legacy
  rating page the outcome clears the \<open>submitting\<close> flag, and a failed write is logged
  and also opens the error snackbar.
\<close>

theorem write_failure_isolated:
  "(currentMovie s = Some x \<and> movieQueue s = a # rest \<longrightarrow>
      writeDone (length (writes s)) True (handleRating v (rendered s) s)
        = s\<lparr> currentMovie := Some a, movieQueue := rest, expanded := False \<rparr> \<and>
      writeDone (length (writes s)) False (handleRating v (rendered s) s)
        = s\<lparr> currentMovie := Some a, movieQueue := rest, expanded := False,
             console := console s @ [''Failed to save rating:''] \<rparr>) \<and>
   writeDone i True s =
     (if i < length (writes s) then s\<lparr> writes := remove_nth i (writes s) \<rparr> else s) \<and>
   writeDone i False s =
     (if i < length (writes s)
      then s\<lparr> writes := remove_nth i (writes s),
              console := console s @ [''Failed to save rating:''] \<rparr>
      else s) \<and>
   submitRating_resume True p = p\<lparr> submitting := False \<rparr> \<and>
   submitRating_resume False p =
     p\<lparr> submitting := False,
        snackbar_open := True,
        snackbar_message := ''Failed to submit rating, but we moved to the next movie.'',
        console_page := console_page p @ [''Error submitting rating:''] \<rparr>"
  by (simp add: writeDone_def handleRating_resume_def handleRating_def moveToNextMovie_def
      rendered_def submitRating_resume_def remove_nth_def Let_def)

text \<open>
  C5, witness: the explorer after an initial batch of three movies, rated, with the
  write failing.
\<close>

theorem write_failure_isolated_witness:
  "currentMovie watching = Some (shown 1) \<and> movieQueue watching = [shown 2, shown 3] \<and>
   writeDone (length (writes watching)) False (handleRating Yes (rendered watching) watching)
     = watching\<lparr> currentMovie := Some (shown 2), movieQueue := [shown 3], expanded := False,
                 console := console watching @ [''Failed to save rating:''] \<rparr>"
proof -
  have w: "currentMovie watching = Some (shown 1) \<and> movieQueue watching = [shown 2, shown 3]"
    by (simp add: watching_eval)
  show ?thesis
    using w write_failure_isolated [of watching "shown 1" "shown 2" "[shown 3]" Yes]
    by blast
qed

text \<open>
  C5 as stated fails on the legacy rating page: the snackbar is closed after the rating
  and open, with an error message, after the write has failed.
\<close>

theorem write_failure_snackbar_counterexample:
  "\<not> snackbar_open (submitRating Yes (browsing (Some \<lparr> user_id = 7 \<rparr>))) \<and>
   snackbar_open
     (submitRating_resume False (submitRating Yes (browsing (Some \<lparr> user_id = 7 \<rparr>)))) \<and>
   snackbar_message
     (submitRating_resume False (submitRating Yes (browsing (Some \<lparr> user_id = 7 \<rparr>))))
     = ''Failed to submit rating, but we moved to the next movie.''"
  by (simp add: browsing_eval submitRating_def submitRating_resume_def listed_def Let_def)




text \<open>
  C7 (amended). When the initial fetch returns more than one movie, \<open>initialize\<close> sets
  the current movie to the first (its genres normalised in the batch-fetch explorer) and
  the buffer to exactly the remaining movies in order; when it returns a single movie,
  that movie becomes current and the buffer is left as it is; when it fails or returns
  no movie, the error is set and neither the current movie nor the buffer is changed.
  In every case the loading state ends. At mount, where nothing else has run, this makes
  the first movie current and the rest the buffer, or sets the error with no movie
  current and an empty buffer; with A, B, C, D returned the buffer is B, C, D. All of
  this holds of both explorers; in the legacy one the initial fetch joins four single
  requests and the queue effect has three more in flight at mount.
\<close>

theorem initialize_postcondition:
  "initialize r s =
     (if isInitialMount s
      then s\<lparr> loadingMovie := True, error := None,
              pending := pending s @
                [\<lparr> caller = InitFetch, results = FETCH_SIZE, ignore = seenMovieIds_r r \<rparr>] \<rparr>
      else s) \<and>
   initialize_resume (ApiMovies (m # m' # rest)) s =
     s\<lparr> currentMovie := Some (normalizeMovie m),
        movieQueue := map normalizeMovie (m' # rest),
        seenMovieIds := seenMovieIds s @ map movie_id (m # m' # rest),
        loadingMovie := False, isInitialMount := False \<rparr> \<and>
   initialize_resume (ApiMovies [m]) s =
     s\<lparr> currentMovie := Some (normalizeMovie m),
        seenMovieIds := seenMovieIds s @ [movie_id m],
        loadingMovie := False, isInitialMount := False \<rparr> \<and>
   initialize_resume (ApiMovies []) s =
     s\<lparr> error := Some ''Failed to fetch movies'',
        loadingMovie := False, isInitialMount := False \<rparr> \<and>
   initialize_resume ApiError s =
     s\<lparr> error := Some ''Failed to fetch movies'',
        console := console s @ [''Failed to fetch movies:''],
        loadingMovie := False, isInitialMount := False \<rparr> \<and>
   initialize_resume ApiInvalid s =
     s\<lparr> error := Some ''Failed to fetch movies'',
        console := console s @ [''Invalid response format:''],
        loadingMovie := False, isInitialMount := False \<rparr> \<and>
   currentMovie (run [Initialize Latest, Replenish (From (rendered initial)),
                      FetchDone 0 (ApiMovies (m # rest))] initial)
     = Some (normalizeMovie m) \<and>
   movieQueue (run [Initialize Latest, Replenish (From (rendered initial)),
                    FetchDone 0 (ApiMovies (m # rest))] initial)
     = map normalizeMovie rest \<and>
   error (run [Initialize Latest, Replenish (From (rendered initial)),
               FetchDone 0 (ApiMovies (m # rest))] initial) = None \<and>
   list_all (\<lambda>a.
      error (run [Initialize Latest, Replenish (From (rendered initial)), FetchDone 0 a]
               initial) = Some ''Failed to fetch movies'' \<and>
      currentMovie (run [Initialize Latest, Replenish (From (rendered initial)), FetchDone 0 a]
               initial) = None \<and>
      movieQueue (run [Initialize Latest, Replenish (From (rendered initial)), FetchDone 0 a]
               initial) = [])
     [ApiError, ApiInvalid, ApiMovies []] \<and>
   initialize_single t =
     t\<lparr> loadingMovie_single := True, error_single := None,
        pending_single := pending_single t @
          [\<lparr> awaited_by = InitFetch, fetches = QUEUE_SIZE + 1 \<rparr>] \<rparr> \<and>
   initialize_single_resume answers t =
     (let t1 = t\<lparr> console_single := console_single t @
                    replicate (length (filter (\<lambda>a. a = None) answers))
                      ''Failed to fetch movie:'' \<rparr>
      in case map the (filter (\<lambda>a. a \<noteq> None) answers) of
           [] \<Rightarrow> t1\<lparr> error_single := Some ''Failed to fetch movies'',
                      loadingMovie_single := False \<rparr>
         | [first] \<Rightarrow> t1\<lparr> currentMovie_single := Some first,
                           loadingMovie_single := False \<rparr>
         | first # second # others \<Rightarrow>
             t1\<lparr> currentMovie_single := Some first,
                 movieQueue_single := second # others,
                 loadingMovie_single := False \<rparr>) \<and>
   (case map the (filter (\<lambda>a. a \<noteq> None) [a1, a2, a3, a4]) of
      [] \<Rightarrow>
        error_single (run_single (mount_single @ [FetchDone_single 0 [a1, a2, a3, a4]])
                        initial_single) = Some ''Failed to fetch movies'' \<and>
        currentMovie_single (run_single (mount_single @ [FetchDone_single 0 [a1, a2, a3, a4]])
                        initial_single) = None \<and>
        movieQueue_single (run_single (mount_single @ [FetchDone_single 0 [a1, a2, a3, a4]])
                        initial_single) = []
    | first # others \<Rightarrow>
        currentMovie_single (run_single (mount_single @ [FetchDone_single 0 [a1, a2, a3, a4]])
                        initial_single) = Some first \<and>
        movieQueue_single (run_single (mount_single @ [FetchDone_single 0 [a1, a2, a3, a4]])
                        initial_single) = others \<and>
        error_single (run_single (mount_single @ [FetchDone_single 0 [a1, a2, a3, a4]])
                        initial_single) = None)"
proof -
  have start: "initialize r s =
     (if isInitialMount s
      then s\<lparr> loadingMovie := True, error := None,
              pending := pending s @
                [\<lparr> caller = InitFetch, results = FETCH_SIZE, ignore = seenMovieIds_r r \<rparr>] \<rparr>
      else s)"
    by (simp add: initialize_def fetchMovies_request_def Let_def)
  have many: "initialize_resume (ApiMovies (m # m' # rest)) s =
     s\<lparr> currentMovie := Some (normalizeMovie m),
        movieQueue := map normalizeMovie (m' # rest),
        seenMovieIds := seenMovieIds s @ map movie_id (m # m' # rest),
        loadingMovie := False, isInitialMount := False \<rparr>"
    by (simp add: initialize_resume_def Let_def)
  have one: "initialize_resume (ApiMovies [m]) s =
     s\<lparr> currentMovie := Some (normalizeMovie m),
        seenMovieIds := seenMovieIds s @ [movie_id m],
        loadingMovie := False, isInitialMount := False \<rparr>"
    by (simp add: initialize_resume_def Let_def)
  have none: "initialize_resume (ApiMovies []) s =
     s\<lparr> error := Some ''Failed to fetch movies'',
        loadingMovie := False, isInitialMount := False \<rparr>"
    by (simp add: initialize_resume_def Let_def)
  have err: "initialize_resume ApiError s =
     s\<lparr> error := Some ''Failed to fetch movies'',
        console := console s @ [''Failed to fetch movies:''],
        loadingMovie := False, isInitialMount := False \<rparr>"
    by (simp add: initialize_resume_def Let_def)
  have inv: "initialize_resume ApiInvalid s =
     s\<lparr> error := Some ''Failed to fetch movies'',
        console := console s @ [''Invalid response format:''],
        loadingMovie := False, isInitialMount := False \<rparr>"
    by (simp add: initialize_resume_def Let_def)
  have mount: "currentMovie (run [Initialize Latest, Replenish (From (rendered initial)),
                      FetchDone 0 (ApiMovies (m # rest))] initial)
       = Some (normalizeMovie m) \<and>
     movieQueue (run [Initialize Latest, Replenish (From (rendered initial)),
                      FetchDone 0 (ApiMovies (m # rest))] initial)
       = map normalizeMovie rest \<and>
     error (run [Initialize Latest, Replenish (From (rendered initial)),
                 FetchDone 0 (ApiMovies (m # rest))] initial) = None"
    by (simp add: explorer_eval)
  have failed: "list_all (\<lambda>a.
      error (run [Initialize Latest, Replenish (From (rendered initial)), FetchDone 0 a]
               initial) = Some ''Failed to fetch movies'' \<and>
      currentMovie (run [Initialize Latest, Replenish (From (rendered initial)), FetchDone 0 a]
               initial) = None \<and>
      movieQueue (run [Initialize Latest, Replenish (From (rendered initial)), FetchDone 0 a]
               initial) = [])
     [ApiError, ApiInvalid, ApiMovies []]"
    by (simp add: explorer_eval)
  have single_start: "initialize_single t =
     t\<lparr> loadingMovie_single := True, error_single := None,
        pending_single := pending_single t @
          [\<lparr> awaited_by = InitFetch, fetches = QUEUE_SIZE + 1 \<rparr>] \<rparr>"
    by (simp add: initialize_single_def Let_def)
  have single_resume: "initialize_single_resume answers t' =
     (let t1 = t'\<lparr> console_single := console_single t' @
                    replicate (length (filter (\<lambda>a. a = None) answers))
                      ''Failed to fetch movie:'' \<rparr>
      in case map the (filter (\<lambda>a. a \<noteq> None) answers) of
           [] \<Rightarrow> t1\<lparr> error_single := Some ''Failed to fetch movies'',
                      loadingMovie_single := False \<rparr>
         | [first] \<Rightarrow> t1\<lparr> currentMovie_single := Some first,
                           loadingMovie_single := False \<rparr>
         | first # second # others \<Rightarrow>
             t1\<lparr> currentMovie_single := Some first,
                 movieQueue_single := second # others,
                 loadingMovie_single := False \<rparr>)" for answers t'
    unfolding initialize_single_resume_def
    by (simp add: split_beta fetchMovie_all_valid fetchMovie_all_state Let_def
          split: list.splits)
  let ?t = "\<lparr> currentMovie_single = None, movieQueue_single = [],
     loadingMovie_single = True, error_single = None, expanded_single = False,
     pending_single = [\<lparr> awaited_by = ReplenishFetch, fetches = 3 \<rparr>],
     writes_single = [], console_single = [] \<rparr>"
  let ?valid = "map the (filter (\<lambda>a. a \<noteq> None) [a1, a2, a3, a4])"
  have st: "run_single (mount_single @ [FetchDone_single 0 [a1, a2, a3, a4]]) initial_single
        = initialize_single_resume [a1, a2, a3, a4] ?t"
    by (simp add: run_single_def mount_single_def rendered_single_def fetchDone_single_def
        initialize_single_def queueEffect_single_def replenishQueue_single_def
        initial_single_def remove_nth_def QUEUE_SIZE_def Let_def)
  have single_mount: "(case ?valid of
      [] \<Rightarrow>
        error_single (initialize_single_resume [a1, a2, a3, a4] ?t) = Some ''Failed to fetch movies'' \<and>
        currentMovie_single (initialize_single_resume [a1, a2, a3, a4] ?t) = None \<and>
        movieQueue_single (initialize_single_resume [a1, a2, a3, a4] ?t) = []
    | first # others \<Rightarrow>
        currentMovie_single (initialize_single_resume [a1, a2, a3, a4] ?t) = Some first \<and>
        movieQueue_single (initialize_single_resume [a1, a2, a3, a4] ?t) = others \<and>
        error_single (initialize_single_resume [a1, a2, a3, a4] ?t) = None)"
    unfolding single_resume [of "[a1, a2, a3, a4]" ?t] Let_def
    by (cases ?valid) (simp_all split: list.splits)
  show ?thesis
    using start many one none err inv mount failed single_start
      single_resume [of answers t] single_mount
    unfolding st by blast
qed

text \<open>
  C7 as stated fails in two ways. With A, B, C, D returned for a target of three, the
  buffer is B, C, D and not B, C, in the legacy explorer at mount and in the batch-fetch
  one. And the buffer is not always the remaining items: in the legacy explorer, when the
  three movies of the queue effect arrive first and the initial fetch then brings a
  single movie, the buffer keeps those three instead of becoming empty.
\<close>

theorem initialize_keeps_whole_batch_counterexample:
  "currentMovie_single (run_single (mount_single @
      [FetchDone_single 0 [Some (film 1), Some (film 2), Some (film 3), Some (film 4)]])
      initial_single) = Some (film 1) \<and>
   movieQueue_single (run_single (mount_single @
      [FetchDone_single 0 [Some (film 1), Some (film 2), Some (film 3), Some (film 4)]])
      initial_single) = [film 2, film 3, film 4] \<and>
   movieQueue_single (run_single (mount_single @
      [FetchDone_single 0 [Some (film 1), Some (film 2), Some (film 3), Some (film 4)]])
      initial_single) \<noteq> [film 2, film 3] \<and>
   movieQueue (run [Initialize Latest, Replenish (From (rendered initial)),
      FetchDone 0 (ApiMovies [film 1, film 2, film 3, film 4])] initial)
     = [shown 2, shown 3, shown 4] \<and>
   currentMovie_single (run_single (mount_single @
      [FetchDone_single 1 [Some (film 5), Some (film 6), Some (film 7)],
       FetchDone_single 0 [Some (film 1), None, None, None]])
      initial_single) = Some (film 1) \<and>
   movieQueue_single (run_single (mount_single @
      [FetchDone_single 1 [Some (film 5), Some (film 6), Some (film 7)],
       FetchDone_single 0 [Some (film 1), None, None, None]])
      initial_single) = [film 5, film 6, film 7]"
  by (simp add: single_eval explorer_eval shown_def)

text \<open>
  C8 (amended). When the skip handler belongs to a render with an empty buffer and the
  \<open>isReplenishing\<close> guard is clear, advancing in the batch-fetch explorer sets the
  guard and the loading state and sends one request for one movie; its answer clears the
  loading state and the guard and makes the fetched movie current, or sets the error when
  there is none. The loading state need not last until that answer: the answer to
  \<open>initialize\<close> clears it while the request is still in flight. With the guard set,
  advancing on an empty buffer does nothing. The legacy explorer has no guard and always
  fetches.
\<close>

theorem advance_on_empty_buffer:
  "(movieQueue_r r = [] \<and> \<not> isReplenishing s \<longrightarrow>
      moveToNextMovie r s =
        s\<lparr> isReplenishing := True, loadingMovie := True,
           pending := pending s @
             [\<lparr> caller = AdvanceFetch, results = 1, ignore = seenMovieIds_r r \<rparr>] \<rparr> \<and>
      fetchDone (length (pending s)) (ApiMovies (m # rest)) (moveToNextMovie r s) =
        s\<lparr> currentMovie := Some (normalizeMovie m),
           seenMovieIds := seenMovieIds s @ map movie_id (m # rest),
           loadingMovie := False, isReplenishing := False \<rparr> \<and>
      list_all (\<lambda>a.
          error (fetchDone (length (pending s)) a (moveToNextMovie r s))
            = Some ''Failed to fetch movie'' \<and>
          currentMovie (fetchDone (length (pending s)) a (moveToNextMovie r s))
            = currentMovie s \<and>
          pending (fetchDone (length (pending s)) a (moveToNextMovie r s)) = pending s \<and>
          \<not> loadingMovie (fetchDone (length (pending s)) a (moveToNextMovie r s)))
        [ApiError, ApiInvalid, ApiMovies []]) \<and>
   (movieQueue_r r = [] \<and> isReplenishing s \<longrightarrow> moveToNextMovie r s = s) \<and>
   (movieQueue_rs r1 = [] \<longrightarrow>
      moveToNextMovie_single r1 t =
        t\<lparr> loadingMovie_single := True,
           pending_single := pending_single t @
             [\<lparr> awaited_by = AdvanceFetch, fetches = 1 \<rparr>] \<rparr> \<and>
      fetchDone_single (length (pending_single t)) [Some m] (moveToNextMovie_single r1 t) =
        t\<lparr> currentMovie_single := Some m, loadingMovie_single := False \<rparr> \<and>
      fetchDone_single (length (pending_single t)) [None] (moveToNextMovie_single r1 t) =
        t\<lparr> error_single := Some ''Failed to fetch movie'', loadingMovie_single := False,
           console_single := console_single t @ [''Failed to fetch movie:''] \<rparr>)"
  by (simp add: moveToNextMovie_def fetchDone_def moveToNextMovie_resume_def
      fetchMovies_request_def remove_nth_def Let_def
      moveToNextMovie_single_def fetchDone_single_def moveToNextMovie_single_resume_def)

text \<open>
  C8, witness: the explorer after an initial batch of one movie, before and after the
  queue effect has set the guard, and the legacy explorer at mount.
\<close>

theorem advance_on_empty_buffer_witness:
  "movieQueue_r (rendered lonely) = [] \<and> \<not> isReplenishing lonely \<and>
   loadingMovie (moveToNextMovie (rendered lonely) lonely) \<and>
   currentMovie (fetchDone (length (pending lonely)) (ApiMovies [film 2])
                   (moveToNextMovie (rendered lonely) lonely)) = Some (shown 2) \<and>
   isReplenishing (queueEffect (rendered lonely) lonely) \<and>
   moveToNextMovie (rendered lonely) (queueEffect (rendered lonely) lonely)
     = queueEffect (rendered lonely) lonely \<and>
   movieQueue_rs (rendered_single initial_single) = [] \<and>
   loadingMovie_single (moveToNextMovie_single (rendered_single initial_single) initial_single) \<and>
   currentMovie_single (fetchDone_single (length (pending_single initial_single))
     [Some (film 2)]
     (moveToNextMovie_single (rendered_single initial_single) initial_single))
     = Some (film 2)"
proof -
  have a: "movieQueue_r (rendered lonely) = [] \<and> \<not> isReplenishing lonely"
    by (simp add: lonely_eval rendered_def)
  have b: "isReplenishing (queueEffect (rendered lonely) lonely)"
    by (simp add: lonely_eval rendered_def queueEffect_def replenishQueue_def
          MIN_QUEUE_SIZE_def Let_def)
  have c: "movieQueue_rs (rendered_single initial_single) = []"
    by (simp add: initial_single_def rendered_single_def)
  note t = advance_on_empty_buffer [of "rendered lonely" lonely "film 2" "[]"
        "rendered_single initial_single" initial_single]
  have mv: "moveToNextMovie (rendered lonely) lonely =
        lonely\<lparr> isReplenishing := True, loadingMovie := True,
           pending := pending lonely @
             [\<lparr> caller = AdvanceFetch, results = 1,
                ignore = seenMovieIds_r (rendered lonely) \<rparr>] \<rparr>"
    using a t by blast
  have fd: "fetchDone (length (pending lonely)) (ApiMovies [film 2])
              (moveToNextMovie (rendered lonely) lonely) =
        lonely\<lparr> currentMovie := Some (normalizeMovie (film 2)),
           seenMovieIds := seenMovieIds lonely @ map movie_id [film 2],
           loadingMovie := False, isReplenishing := False \<rparr>"
    using a t by blast
  have d: "loadingMovie (moveToNextMovie (rendered lonely) lonely) \<and>
     currentMovie (fetchDone (length (pending lonely)) (ApiMovies [film 2])
                   (moveToNextMovie (rendered lonely) lonely)) = Some (shown 2)"
    unfolding fd unfolding mv by (simp add: shown_def)
  have e: "moveToNextMovie (rendered lonely) (queueEffect (rendered lonely) lonely)
     = queueEffect (rendered lonely) lonely"
    using a b advance_on_empty_buffer [of "rendered lonely" "queueEffect (rendered lonely) lonely"
        "film 2" "[]" "rendered_single initial_single" initial_single]
    by blast
  have mvs: "moveToNextMovie_single (rendered_single initial_single) initial_single =
        initial_single\<lparr> loadingMovie_single := True,
           pending_single := pending_single initial_single @
             [\<lparr> awaited_by = AdvanceFetch, fetches = 1 \<rparr>] \<rparr>"
    using c t by blast
  have fds: "fetchDone_single (length (pending_single initial_single)) [Some (film 2)]
        (moveToNextMovie_single (rendered_single initial_single) initial_single) =
        initial_single\<lparr> currentMovie_single := Some (film 2), loadingMovie_single := False \<rparr>"
    using c t by blast
  have f: "loadingMovie_single
       (moveToNextMovie_single (rendered_single initial_single) initial_single) \<and>
     currentMovie_single (fetchDone_single (length (pending_single initial_single))
       [Some (film 2)]
       (moveToNextMovie_single (rendered_single initial_single) initial_single))
       = Some (film 2)"
    unfolding fds unfolding mvs by simp
  show ?thesis
    using a b c d e f by blast
qed

text \<open>
  C8 as stated fails in two ways. After an initial batch of one movie the buffer is
  empty and the queue effect has a replenishment in flight; advancing then changes
  nothing and sends no request. And when the skip button is pressed at mount, the
  request it sends is still in flight when the initial batch arrives, whose
  \<open>finally\<close> block ends the loading state.
\<close>

theorem advance_blocked_by_guard_counterexample:
  "movieQueue (run [Initialize Latest, FetchDone 0 (ApiMovies [film 1]), Replenish Latest]
                 initial) = [] \<and>
   run [Initialize Latest, FetchDone 0 (ApiMovies [film 1]), Replenish Latest, Advance Latest]
       initial
     = run [Initialize Latest, FetchDone 0 (ApiMovies [film 1]), Replenish Latest] initial \<and>
   map caller (pending (run [Initialize Latest, FetchDone 0 (ApiMovies [film 1]),
                             Replenish Latest, Advance Latest] initial)) = [ReplenishFetch] \<and>
   movieQueue (run [Initialize Latest] initial) = [] \<and>
   map caller (pending (run [Initialize Latest, Advance Latest] initial))
     = [InitFetch, AdvanceFetch] \<and>
   loadingMovie (run [Initialize Latest, Advance Latest] initial) \<and>
   map caller (pending (run [Initialize Latest, Advance Latest,
                             FetchDone 0 (ApiMovies [film 1, film 2, film 3])] initial))
     = [AdvanceFetch] \<and>
   \<not> loadingMovie (run [Initialize Latest, Advance Latest,
                        FetchDone 0 (ApiMovies [film 1, film 2, film 3])] initial)"
  by (simp add: explorer_eval)

text \<open>
  C9 (amended). \<open>seenMovieIds\<close> is a list that only grows at its end: every operation
  leaves the identifiers already in it in place, and an answer with movies appends the
  identifier of each, in order, whether or not it is there already.
\<close>

theorem seen_ids_appended:
  "(\<exists>ids. seenMovieIds (step s e) = seenMovieIds s @ ids) \<and>
   (i < length (pending s) \<longrightarrow>
      seenMovieIds (step s (FetchDone i (ApiMovies movies)))
        = seenMovieIds s @ map movie_id movies \<and>
      seenMovieIds (step s (FetchDone i ApiError)) = seenMovieIds s \<and>
      seenMovieIds (step s (FetchDone i ApiInvalid)) = seenMovieIds s)"
  using step_seen_grows [of s e] by (simp add: fetchDone_seen)

text \<open>
  C9, witness: a replenishment answered with the movies 3 and 4 when 1, 2 and 3 have
  been seen.
\<close>

theorem seen_ids_appended_witness:
  "0 < length (pending (queueEffect (rendered watching) watching)) \<and>
   seenMovieIds (step (queueEffect (rendered watching) watching)
                   (FetchDone 0 (ApiMovies [film 3, film 4])))
     = [1, 2, 3, 3, 4]"
proof -
  have a: "0 < length (pending (queueEffect (rendered watching) watching))"
    by (simp add: watching_eval rendered_def queueEffect_def replenishQueue_def
          MIN_QUEUE_SIZE_def Let_def)
  have b: "seenMovieIds (queueEffect (rendered watching) watching) = [1, 2, 3]"
    by (simp add: watching_eval rendered_def queueEffect_def replenishQueue_def
          MIN_QUEUE_SIZE_def Let_def)
  show ?thesis
    using a b seen_ids_appended [of "queueEffect (rendered watching) watching"
        "Replenish Latest" 0 "[film 3, film 4]"]
    by (simp add: film_def)
qed

text \<open>
  C9 as stated fails: when the source returns movie 3 a second time, the identifier 3
  is in \<open>seenMovieIds\<close> twice.
\<close>

theorem seen_ids_repeat_counterexample:
  "seenMovieIds (run [Initialize Latest, FetchDone 0 (ApiMovies [film 1, film 2, film 3]),
                      Replenish Latest, FetchDone 0 (ApiMovies [film 3, film 4])] initial)
     = [1, 2, 3, 3, 4] \<and>
   \<not> distinct (seenMovieIds (run [Initialize Latest,
                      FetchDone 0 (ApiMovies [film 1, film 2, film 3]),
                      Replenish Latest, FetchDone 0 (ApiMovies [film 3, film 4])] initial))"
  by (simp add: explorer_eval film_def)

text \<open>
  C10 (amended). Replenishing never changes the current movie or the error, and never
  removes or reorders movies of the buffer: starting it (from any render, directly or
  through the queue effect) leaves the buffer and \<open>seenMovieIds\<close> as they are; its
  answer appends the fetched movies to the buffer and their identifiers to
  \<open>seenMovieIds\<close>; a failed answer leaves both as they are. The same holds of the
  legacy explorer, which has no \<open>seenMovieIds\<close>. In the batch-fetch explorer
  replenishing also sets the loading state when it starts from a render with fewer than
  two movies in the buffer, and its answer clears the loading state and the guard.
\<close>

theorem replenish_frame:
  "currentMovie (replenishQueue r s) = currentMovie s \<and>
   movieQueue (replenishQueue r s) = movieQueue s \<and>
   seenMovieIds (replenishQueue r s) = seenMovieIds s \<and>
   error (replenishQueue r s) = error s \<and>
   currentMovie (queueEffect r s) = currentMovie s \<and>
   movieQueue (queueEffect r s) = movieQueue s \<and>
   seenMovieIds (queueEffect r s) = seenMovieIds s \<and>
   error (queueEffect r s) = error s \<and>
   currentMovie (replenishQueue_resume a s) = currentMovie s \<and>
   error (replenishQueue_resume a s) = error s \<and>
   movieQueue (replenishQueue_resume (ApiMovies movies) s)
     = movieQueue s @ map normalizeMovie movies \<and>
   seenMovieIds (replenishQueue_resume (ApiMovies movies) s)
     = seenMovieIds s @ map movie_id movies \<and>
   movieQueue (replenishQueue_resume ApiError s) = movieQueue s \<and>
   seenMovieIds (replenishQueue_resume ApiError s) = seenMovieIds s \<and>
   movieQueue (replenishQueue_resume ApiInvalid s) = movieQueue s \<and>
   seenMovieIds (replenishQueue_resume ApiInvalid s) = seenMovieIds s \<and>
   loadingMovie (replenishQueue r s) =
     (if isReplenishing s then loadingMovie s
      else loadingMovie s \<or> length (movieQueue_r r) < 2) \<and>
   loadingMovie (replenishQueue (rendered s) s) =
     (if isReplenishing s then loadingMovie s
      else loadingMovie s \<or> length (movieQueue s) < 2) \<and>
   loadingMovie (replenishQueue_resume a s) = False \<and>
   isReplenishing (replenishQueue_resume a s) = False \<and>
   currentMovie_single (replenishQueue_single r1 t) = currentMovie_single t \<and>
   movieQueue_single (replenishQueue_single r1 t) = movieQueue_single t \<and>
   loadingMovie_single (replenishQueue_single r1 t) = loadingMovie_single t \<and>
   currentMovie_single (queueEffect_single r1 t) = currentMovie_single t \<and>
   movieQueue_single (queueEffect_single r1 t) = movieQueue_single t \<and>
   currentMovie_single (replenishQueue_single_resume answers t) = currentMovie_single t \<and>
   loadingMovie_single (replenishQueue_single_resume answers t) = loadingMovie_single t \<and>
   movieQueue_single (replenishQueue_single_resume answers t)
     = movieQueue_single t @ map the (filter (\<lambda>a. a \<noteq> None) answers)"
proof -
  have start: "currentMovie (replenishQueue r s) = currentMovie s \<and>
     movieQueue (replenishQueue r s) = movieQueue s \<and>
     seenMovieIds (replenishQueue r s) = seenMovieIds s \<and>
     error (replenishQueue r s) = error s"
    by (simp add: replenishQueue_def fetchMovies_request_def Let_def)
  have effect: "currentMovie (queueEffect r s) = currentMovie s \<and>
     movieQueue (queueEffect r s) = movieQueue s \<and>
     seenMovieIds (queueEffect r s) = seenMovieIds s \<and>
     error (queueEffect r s) = error s"
    using start by (simp add: queueEffect_def)
  have resume: "currentMovie (replenishQueue_resume a s) = currentMovie s \<and>
     error (replenishQueue_resume a s) = error s"
    by (cases a) (simp_all add: replenishQueue_resume_def Let_def)
  have answers: "movieQueue (replenishQueue_resume (ApiMovies movies) s)
       = movieQueue s @ map normalizeMovie movies \<and>
     seenMovieIds (replenishQueue_resume (ApiMovies movies) s)
       = seenMovieIds s @ map movie_id movies \<and>
     movieQueue (replenishQueue_resume ApiError s) = movieQueue s \<and>
     seenMovieIds (replenishQueue_resume ApiError s) = seenMovieIds s \<and>
     movieQueue (replenishQueue_resume ApiInvalid s) = movieQueue s \<and>
     seenMovieIds (replenishQueue_resume ApiInvalid s) = seenMovieIds s"
    by (simp add: replenishQueue_resume_def Let_def)
  have flags: "loadingMovie (replenishQueue r' s) =
       (if isReplenishing s then loadingMovie s
        else loadingMovie s \<or> length (movieQueue_r r') < 2) \<and>
     loadingMovie (replenishQueue_resume a s) = False \<and>
     isReplenishing (replenishQueue_resume a s) = False" for r'
    by (cases a) (simp_all add: replenishQueue_def replenishQueue_resume_def Let_def)
  have now: "movieQueue_r (rendered s) = movieQueue s"
    by (simp add: rendered_def)
  have single_start: "currentMovie_single (replenishQueue_single r1 t) = currentMovie_single t \<and>
     movieQueue_single (replenishQueue_single r1 t) = movieQueue_single t \<and>
     loadingMovie_single (replenishQueue_single r1 t) = loadingMovie_single t \<and>
     currentMovie_single (queueEffect_single r1 t) = currentMovie_single t \<and>
     movieQueue_single (queueEffect_single r1 t) = movieQueue_single t"
    by (simp add: replenishQueue_single_def queueEffect_single_def Let_def)
  have single_resume:
    "currentMovie_single (replenishQueue_single_resume answers t) = currentMovie_single t \<and>
     loadingMovie_single (replenishQueue_single_resume answers t) = loadingMovie_single t \<and>
     movieQueue_single (replenishQueue_single_resume answers t)
       = movieQueue_single t @ map the (filter (\<lambda>a. a \<noteq> None) answers)"
    unfolding replenishQueue_single_resume_def Let_def split_beta fetchMovie_all_valid
    by (simp add: fetchMovie_all_state)
  show ?thesis
    using start effect resume answers flags [of r] flags [of "rendered s"] now
      single_start single_resume
    by simp
qed

text \<open>
  C10 as stated fails: after an initial batch of one movie nothing is loading and a
  movie is shown; the replenishment the queue effect then starts sets the loading state.
\<close>

theorem replenish_sets_loading_counterexample:
  "currentMovie (run [Initialize Latest, FetchDone 0 (ApiMovies [film 1])] initial)
     = Some (shown 1) \<and>
   \<not> loadingMovie (run [Initialize Latest, FetchDone 0 (ApiMovies [film 1])] initial) \<and>
   loadingMovie (run [Initialize Latest, FetchDone 0 (ApiMovies [film 1]), Replenish Latest]
                   initial)"
  by (simp add: explorer_eval shown_def)

end
